theory Spec2Isabelle
  imports Complex_Main
begin

section \<open>Numbers of the numeric runtime\<close>

text \<open>
  The engine computes with NumPy's 64-bit floats. A value is a finite number, one of the
  two infinities, or not-a-number. Finite values are modelled by the reals: rounding and
  overflow are left out, the special values and the rules that produce them are kept.
  Zero carries no sign, so a quotient by zero takes the sign of its numerator, as it does
  for the divisors of the engine (standard deviations, standard errors and counts, which are
  never negative zero).
\<close>

datatype npfloat = Fin real | PInf | NInf | NaN

instantiation npfloat :: "{zero, one, plus, uminus, minus, times, inverse, abs, ord}"
begin

definition zero_npfloat :: npfloat where
  "zero_npfloat = Fin 0"

definition one_npfloat :: npfloat where
  "one_npfloat = Fin 1"

definition plus_npfloat :: "npfloat \<Rightarrow> npfloat \<Rightarrow> npfloat" where
  "plus_npfloat a b =
     (case a of
        NaN \<Rightarrow> NaN
      | PInf \<Rightarrow> (case b of NaN \<Rightarrow> NaN | NInf \<Rightarrow> NaN | _ \<Rightarrow> PInf)
      | NInf \<Rightarrow> (case b of NaN \<Rightarrow> NaN | PInf \<Rightarrow> NaN | _ \<Rightarrow> NInf)
      | Fin x \<Rightarrow> (case b of Fin y \<Rightarrow> Fin (x + y) | _ \<Rightarrow> b))"

definition uminus_npfloat :: "npfloat \<Rightarrow> npfloat" where
  "uminus_npfloat a = (case a of Fin x \<Rightarrow> Fin (- x) | PInf \<Rightarrow> NInf | NInf \<Rightarrow> PInf | NaN \<Rightarrow> NaN)"

definition minus_npfloat :: "npfloat \<Rightarrow> npfloat \<Rightarrow> npfloat" where
  "minus_npfloat a b = a + (- b)"

definition times_npfloat :: "npfloat \<Rightarrow> npfloat \<Rightarrow> npfloat" where
  "times_npfloat a b =
     (case a of
        NaN \<Rightarrow> NaN
      | Fin x \<Rightarrow>
          (case b of
             Fin y \<Rightarrow> Fin (x * y)
           | PInf \<Rightarrow> (if x = 0 then NaN else if 0 < x then PInf else NInf)
           | NInf \<Rightarrow> (if x = 0 then NaN else if 0 < x then NInf else PInf)
           | NaN \<Rightarrow> NaN)
      | PInf \<Rightarrow>
          (case b of
             Fin y \<Rightarrow> (if y = 0 then NaN else if 0 < y then PInf else NInf)
           | PInf \<Rightarrow> PInf
           | NInf \<Rightarrow> NInf
           | NaN \<Rightarrow> NaN)
      | NInf \<Rightarrow>
          (case b of
             Fin y \<Rightarrow> (if y = 0 then NaN else if 0 < y then NInf else PInf)
           | PInf \<Rightarrow> NInf
           | NInf \<Rightarrow> PInf
           | NaN \<Rightarrow> NaN))"

definition divide_npfloat :: "npfloat \<Rightarrow> npfloat \<Rightarrow> npfloat" where
  "divide_npfloat a b =
     (case a of
        NaN \<Rightarrow> NaN
      | Fin x \<Rightarrow>
          (case b of
             Fin y \<Rightarrow>
               (if y \<noteq> 0 then Fin (x / y)
                else if x = 0 then NaN else if 0 < x then PInf else NInf)
           | PInf \<Rightarrow> Fin 0
           | NInf \<Rightarrow> Fin 0
           | NaN \<Rightarrow> NaN)
      | PInf \<Rightarrow> (case b of Fin y \<Rightarrow> (if 0 \<le> y then PInf else NInf) | _ \<Rightarrow> NaN)
      | NInf \<Rightarrow> (case b of Fin y \<Rightarrow> (if 0 \<le> y then NInf else PInf) | _ \<Rightarrow> NaN))"

definition inverse_npfloat :: "npfloat \<Rightarrow> npfloat" where
  "inverse_npfloat a = divide (Fin 1) a"

definition abs_npfloat :: "npfloat \<Rightarrow> npfloat" where
  "abs_npfloat a = (case a of Fin x \<Rightarrow> Fin \<bar>x\<bar> | PInf \<Rightarrow> PInf | NInf \<Rightarrow> PInf | NaN \<Rightarrow> NaN)"

text \<open>Comparisons: every comparison with not-a-number is false.\<close>

definition less_npfloat :: "npfloat \<Rightarrow> npfloat \<Rightarrow> bool" where
  "less_npfloat a b =
     (case a of
        NaN \<Rightarrow> False
      | Fin x \<Rightarrow> (case b of Fin y \<Rightarrow> x < y | PInf \<Rightarrow> True | _ \<Rightarrow> False)
      | PInf \<Rightarrow> False
      | NInf \<Rightarrow> (case b of Fin y \<Rightarrow> True | PInf \<Rightarrow> True | _ \<Rightarrow> False))"

definition less_eq_npfloat :: "npfloat \<Rightarrow> npfloat \<Rightarrow> bool" where
  "less_eq_npfloat a b =
     (case a of
        NaN \<Rightarrow> False
      | Fin x \<Rightarrow> (case b of Fin y \<Rightarrow> x \<le> y | PInf \<Rightarrow> True | _ \<Rightarrow> False)
      | PInf \<Rightarrow> (case b of PInf \<Rightarrow> True | _ \<Rightarrow> False)
      | NInf \<Rightarrow> (case b of NaN \<Rightarrow> False | _ \<Rightarrow> True))"

instance ..

end

definition np_sqrt :: "npfloat \<Rightarrow> npfloat" where
  "np_sqrt a =
     (case a of
        Fin x \<Rightarrow> (if 0 \<le> x then Fin (sqrt x) else NaN)
      | PInf \<Rightarrow> PInf
      | NInf \<Rightarrow> NaN
      | NaN \<Rightarrow> NaN)"

definition of_count :: "nat \<Rightarrow> npfloat" where
  "of_count n = Fin (real n)"

definition of_pyint :: "int \<Rightarrow> npfloat" where
  "of_pyint i = Fin (real_of_int i)"

text \<open>
  Python's built-in \<open>min\<close> and \<open>max\<close> of two arguments keep the first argument unless
  the second compares strictly smaller (larger): a not-a-number first argument is kept.
\<close>

definition py_min :: "npfloat \<Rightarrow> npfloat \<Rightarrow> npfloat" where
  "py_min a b = (if b < a then b else a)"

definition py_max :: "npfloat \<Rightarrow> npfloat \<Rightarrow> npfloat" where
  "py_max a b = (if a < b then b else a)"

section \<open>Errors\<close>

text \<open>
  Every exception the engine can meet is a value. \<open>analyze\<close> catches all of them and
  reports the message; a function that can raise returns \<open>pyerr + result\<close>.
\<close>

datatype pyerr =
    ZeroDivisionError
  | IndexError
  | UnboundLocalError string
  | ValueError string
  | LibraryError string

section \<open>Array reductions\<close>

text \<open>
  A sample is an array of finite observations. \<open>np.sum\<close>, \<open>np.mean\<close>,
  \<open>np.var(ddof=1)\<close> and \<open>np.std(ddof=1)\<close> do not raise: on an empty array the mean
  is \<open>0/0\<close>; the variance divides by \<open>max (n - 1) 0\<close>, so it is \<open>0/0\<close> on a single
  observation.
\<close>

type_synonym sample = "real list"

definition np_sum :: "npfloat list \<Rightarrow> npfloat" where
  "np_sum xs = foldr (+) xs (Fin 0)"

definition arr :: "sample \<Rightarrow> npfloat list" where
  "arr g = map Fin g"

definition np_mean :: "sample \<Rightarrow> npfloat" where
  "np_mean g = np_sum (arr g) / of_count (length g)"

definition sq :: "npfloat \<Rightarrow> npfloat" where
  "sq x = x * x"

definition np_var1 :: "sample \<Rightarrow> npfloat" where
  "np_var1 g =
     np_sum (map (\<lambda>x. sq (Fin x - np_mean g)) g) / of_pyint (max (int (length g) - 1) 0)"

definition np_std1 :: "sample \<Rightarrow> npfloat" where
  "np_std1 g = np_sqrt (np_var1 g)"

text \<open>
  \<open>np.min\<close> and \<open>np.max\<close> raise on an empty array. \<open>np.median\<close> is the middle
  of the sorted array (the mean of the two middle values for an even length), and
  \<open>np.percentile\<close> interpolates linearly between the two nearest order statistics.
\<close>

definition np_min :: "sample \<Rightarrow> pyerr + npfloat" where
  "np_min g =
     (if g = [] then
        Inl (ValueError ''zero-size array to reduction operation minimum which has no identity'')
      else Inr (Fin (hd (sort g))))"

definition np_max :: "sample \<Rightarrow> pyerr + npfloat" where
  "np_max g =
     (if g = [] then
        Inl (ValueError ''zero-size array to reduction operation maximum which has no identity'')
      else Inr (Fin (last (sort g))))"

definition np_median :: "sample \<Rightarrow> npfloat" where
  "np_median g =
     (let s = sort g; n = length g in
      if n = 0 then NaN
      else if even n then Fin ((s ! (n div 2 - 1) + s ! (n div 2)) / 2)
      else Fin (s ! (n div 2)))"

definition np_percentile :: "sample \<Rightarrow> real \<Rightarrow> npfloat" where
  "np_percentile g q =
     (let s = sort g; n = length g in
      if n = 0 then NaN
      else
        let pos = (real n - 1) * q / 100;
            lo = nat \<lfloor>pos\<rfloor>;
            hi = min (lo + 1) (n - 1);
            frac = pos - real lo
        in Fin (s ! lo + frac * (s ! hi - s ! lo)))"

text \<open>
  \<open>scipy.stats.rankdata\<close> with its default method: an observation's rank is its
  position in the sorted array, tied observations sharing the average of their positions.
\<close>

definition rankdata :: "sample \<Rightarrow> sample" where
  "rankdata xs =
     map (\<lambda>x. real (length (filter (\<lambda>y. y < x) xs))
               + (real (length (filter (\<lambda>y. y = x) xs)) + 1) / 2) xs"

text \<open>A loop whose body can raise stops at the first exception.\<close>

fun try_map :: "('a \<Rightarrow> 'e + 'b) \<Rightarrow> 'a list \<Rightarrow> 'e + 'b list" where
  "try_map f [] = Inr []"
| "try_map f (x # xs) =
     (case f x of
        Inl e \<Rightarrow> Inl e
      | Inr y \<Rightarrow> (case try_map f xs of Inl e \<Rightarrow> Inl e | Inr ys \<Rightarrow> Inr (y # ys)))"

section \<open>The statistics library\<close>

text \<open>
  The hypothesis tests and distribution functions come from SciPy. They are parameters of
  the engine: a test takes its samples and either raises or returns its statistic and its
  p-value.
\<close>

type_synonym test_out = "pyerr + npfloat \<times> npfloat"

record scipy =
  shapiro :: "sample \<Rightarrow> test_out"
  kstest_norm :: "npfloat list \<Rightarrow> test_out"
  skew :: "sample \<Rightarrow> npfloat"
  kurtosis :: "sample \<Rightarrow> npfloat"
  levene :: "sample list \<Rightarrow> test_out"
  bartlett :: "sample list \<Rightarrow> test_out"
  ttest_1samp :: "sample \<Rightarrow> npfloat \<Rightarrow> test_out"
  ttest_ind :: "sample \<Rightarrow> sample \<Rightarrow> bool \<Rightarrow> test_out"
  mannwhitneyu :: "sample \<Rightarrow> sample \<Rightarrow> string option \<Rightarrow> test_out"
  f_oneway :: "sample list \<Rightarrow> test_out"
  kruskal :: "sample list \<Rightarrow> test_out"
  norm_cdf :: "npfloat \<Rightarrow> npfloat"
  t_cdf :: "npfloat \<Rightarrow> npfloat \<Rightarrow> npfloat"
  t_ppf :: "npfloat \<Rightarrow> npfloat \<Rightarrow> npfloat"
  f_cdf :: "npfloat \<Rightarrow> npfloat \<Rightarrow> npfloat \<Rightarrow> npfloat"

section \<open>The engine\<close>

text \<open>
  \<open>StatisticsEngine.__init__\<close> sets the two levels; no method assigns them afterwards.
\<close>

record engine =
  significance_level :: real
  confidence_level :: real

definition init :: engine where
  "init = \<lparr>significance_level = 5 / 100, confidence_level = 95 / 100\<rparr>"

text \<open>
  A label is a string of the request or, when the request has no labels, the default text
  for the group's position.
\<close>

text \<open>
  The texts of a response (the interpretations, the message and the recommendation of the
  homogeneity stage, the rendered effect size and the summary) are fixed sentences and
  formatted numbers built from the fields below; building them reads only keys that are
  always present and does not raise. The records leave them out, except that
  \<open>vt_assumption_met\<close> records which of its two interpretation sentences a variance test
  carries.
\<close>

datatype label = Label string | Group_no nat

subsection \<open>Descriptive statistics\<close>

record descriptive_summary =
  ds_label :: label
  ds_n :: nat
  ds_mean :: npfloat
  ds_median :: npfloat
  ds_std :: npfloat
  ds_se :: npfloat
  ds_min :: npfloat
  ds_max :: npfloat
  ds_q1 :: npfloat
  ds_q3 :: npfloat
  ds_iqr :: npfloat
  ci95_lower :: npfloat
  ci95_upper :: npfloat
  cv :: "npfloat option"

definition describe_group :: "engine \<Rightarrow> scipy \<Rightarrow> sample \<times> label \<Rightarrow> pyerr + descriptive_summary" where
  "describe_group self lib gl =
     (let g = fst gl; lab = snd gl;
          n = length g;
          mean = np_mean g;
          median = np_median g;
          std = np_std1 g;
          se = std / np_sqrt (of_count n);
          t_critical = t_ppf lib (Fin ((1 + confidence_level self) / 2)) (of_pyint (int n - 1));
          ci_lower = mean - t_critical * se;
          ci_upper = mean + t_critical * se
      in case np_min g of
           Inl e \<Rightarrow> Inl e
         | Inr lo \<Rightarrow>
             (case np_max g of
                Inl e \<Rightarrow> Inl e
              | Inr hi \<Rightarrow>
                  Inr \<lparr>ds_label = lab, ds_n = n, ds_mean = mean, ds_median = median,
                       ds_std = std, ds_se = se, ds_min = lo, ds_max = hi,
                       ds_q1 = np_percentile g 25, ds_q3 = np_percentile g 75,
                       ds_iqr = np_percentile g 75 - np_percentile g 25,
                       ci95_lower = ci_lower, ci95_upper = ci_upper,
                       cv = (if mean \<noteq> Fin 0 then Some (std / mean * Fin 100) else None)\<rparr>))"

definition calculate_descriptive_stats ::
  "engine \<Rightarrow> scipy \<Rightarrow> sample list \<Rightarrow> label list \<Rightarrow> pyerr + descriptive_summary list" where
  "calculate_descriptive_stats self lib groups labels =
     try_map (describe_group self lib) (zip groups labels)"

subsection \<open>Normality\<close>

record normality_entry =
  ne_label :: label
  ne_test :: string
  ne_statistic :: npfloat
  ne_p_value :: npfloat
  is_normal :: bool
  skewness :: npfloat
  kurtosis_excess :: npfloat

record normality_results =
  nr_results :: "normality_entry list"
  all_normal :: bool

definition normality_group :: "engine \<Rightarrow> scipy \<Rightarrow> sample \<times> label \<Rightarrow> pyerr + normality_entry" where
  "normality_group self lib gl =
     (let g = fst gl; lab = snd gl; n = length g in
      case (if n < 50 then
              (case shapiro lib g of
                 Inl e \<Rightarrow> Inl e
               | Inr sp \<Rightarrow> Inr (sp, ''Shapiro-Wilk''))
            else
              (let standardized = map (\<lambda>x. (Fin x - np_mean g) / np_std1 g) g in
               case kstest_norm lib standardized of
                 Inl e \<Rightarrow> Inl e
               | Inr sp \<Rightarrow> Inr (sp, ''Kolmogorov-Smirnov'')))
      of
        Inl e \<Rightarrow> Inl e
      | Inr (sp, test_name) \<Rightarrow>
          Inr \<lparr>ne_label = lab, ne_test = test_name,
               ne_statistic = fst sp, ne_p_value = snd sp,
               is_normal = (Fin (significance_level self) < snd sp),
               skewness = skew lib g, kurtosis_excess = kurtosis lib g\<rparr>)"

definition test_normality ::
  "engine \<Rightarrow> scipy \<Rightarrow> sample list \<Rightarrow> label list \<Rightarrow> pyerr + normality_results" where
  "test_normality self lib groups labels =
     (case try_map (normality_group self lib) (zip groups labels) of
        Inl e \<Rightarrow> Inl e
      | Inr results \<Rightarrow>
          Inr \<lparr>nr_results = results, all_normal = list_all is_normal results\<rparr>)"

subsection \<open>Homogeneity of variance\<close>

record variance_test =
  vt_statistic :: npfloat
  vt_p_value :: npfloat
  vt_assumption_met :: bool

record homogeneity_detail =
  hd_levene :: variance_test
  hd_bartlett :: variance_test

record homogeneity_results =
  hr_results :: "homogeneity_detail option"
  equal_variance :: bool

definition test_homogeneity ::
  "engine \<Rightarrow> scipy \<Rightarrow> sample list \<Rightarrow> label list \<Rightarrow> pyerr + homogeneity_results" where
  "test_homogeneity self lib groups labels =
     (if length groups < 2 then Inr \<lparr>hr_results = None, equal_variance = True\<rparr>
      else
        case levene lib groups of
          Inl e \<Rightarrow> Inl e
        | Inr (levene_stat, levene_p) \<Rightarrow>
            (case bartlett lib groups of
               Inl e \<Rightarrow> Inl e
             | Inr (bartlett_stat, bartlett_p) \<Rightarrow>
                 (let equal_var = (Fin (significance_level self) < levene_p) in
                  Inr \<lparr>hr_results = Some
                         \<lparr>hd_levene = \<lparr>vt_statistic = levene_stat, vt_p_value = levene_p,
                                       vt_assumption_met = equal_var\<rparr>,
                          hd_bartlett = \<lparr>vt_statistic = bartlett_stat, vt_p_value = bartlett_p,
                                         vt_assumption_met =
                                           (Fin (significance_level self) < bartlett_p)\<rparr>\<rparr>,
                       equal_variance = equal_var\<rparr>)))"

subsection \<open>Effect sizes\<close>

record effect_size =
  es_value :: npfloat
  magnitude :: string

definition d_magnitude :: "npfloat \<Rightarrow> string" where
  "d_magnitude d =
     (if Fin (8 / 10) \<le> abs d then ''large''
      else if Fin (5 / 10) \<le> abs d then ''medium''
      else if Fin (2 / 10) \<le> abs d then ''small''
      else ''negligible'')"

definition calculate_cohens_d :: "sample \<Rightarrow> sample \<Rightarrow> effect_size" where
  "calculate_cohens_d group1 group2 =
     (let n1 = int (length group1); n2 = int (length group2);
          mean1 = np_mean group1; mean2 = np_mean group2;
          var1 = np_var1 group1; var2 = np_var1 group2;
          pooled_std = np_sqrt ((of_pyint (n1 - 1) * var1 + of_pyint (n2 - 1) * var2)
                                / of_pyint (n1 + n2 - 2));
          d = (mean1 - mean2) / pooled_std
      in \<lparr>es_value = d, magnitude = d_magnitude d\<rparr>)"

definition calculate_cohens_d_one_sample :: "sample \<Rightarrow> npfloat \<Rightarrow> effect_size" where
  "calculate_cohens_d_one_sample grp mu =
     (let mean = np_mean grp;
          std = np_std1 grp;
          d = (mean - mu) / std
      in \<lparr>es_value = d, magnitude = d_magnitude d\<rparr>)"

definition var_magnitude :: "npfloat \<Rightarrow> string" where
  "var_magnitude v =
     (if Fin (14 / 100) \<le> v then ''large''
      else if Fin (6 / 100) \<le> v then ''medium''
      else ''small'')"

text \<open>\<open>np.concatenate\<close> raises on an empty sequence of arrays.\<close>

definition np_concatenate :: "sample list \<Rightarrow> pyerr + sample" where
  "np_concatenate gs =
     (if gs = [] then Inl (ValueError ''need at least one array to concatenate'')
      else Inr (concat gs))"

definition calculate_eta_squared :: "sample list \<Rightarrow> npfloat \<Rightarrow> pyerr + effect_size" where
  "calculate_eta_squared groups f_stat =
     (case np_concatenate groups of
        Inl e \<Rightarrow> Inl e
      | Inr all_data \<Rightarrow>
          (let grand_mean = np_mean all_data;
               ss_between =
                 np_sum (map (\<lambda>g. of_count (length g) * sq (np_mean g - grand_mean)) groups);
               ss_total = np_sum (map (\<lambda>x. sq (Fin x - grand_mean)) all_data);
               eta_sq = ss_between / ss_total
           in Inr \<lparr>es_value = eta_sq, magnitude = var_magnitude eta_sq\<rparr>))"

text \<open>
  In \<open>calculate_omega_squared\<close> the quotient of the two degrees of freedom is a quotient
  of Python integers, which raises on a zero divisor.
\<close>

definition omega_formula :: "npfloat \<Rightarrow> int \<Rightarrow> int \<Rightarrow> npfloat" where
  "omega_formula f_stat df_within df_between =
     (f_stat - Fin 1) / (f_stat + Fin (real_of_int (df_within + 1) / real_of_int df_between))"

definition calculate_omega_squared ::
  "(sample list \<Rightarrow> test_out) \<Rightarrow> sample list \<Rightarrow> pyerr + effect_size" where
  "calculate_omega_squared f_oneway_fn groups =
     (let k = int (length groups);
          n_total = int (length (concat groups))
      in case f_oneway_fn groups of
           Inl e \<Rightarrow> Inl e
         | Inr (f_stat, _) \<Rightarrow>
             (let df_between = k - 1;
                  df_within = n_total - k
              in if df_between = 0 then Inl ZeroDivisionError
                 else
                   (let omega_sq = py_max (Fin 0) (omega_formula f_stat df_within df_between)
                    in Inr \<lparr>es_value = omega_sq, magnitude = var_magnitude omega_sq\<rparr>)))"

definition r_magnitude :: "npfloat \<Rightarrow> string" where
  "r_magnitude r =
     (if Fin (5 / 10) \<le> abs r then ''large''
      else if Fin (3 / 10) \<le> abs r then ''medium''
      else if Fin (1 / 10) \<le> abs r then ''small''
      else ''negligible'')"

definition calculate_rank_biserial ::
  "(sample \<Rightarrow> sample \<Rightarrow> string option \<Rightarrow> test_out) \<Rightarrow> sample \<Rightarrow> sample \<Rightarrow> pyerr + effect_size" where
  "calculate_rank_biserial mannwhitneyu_fn group1 group2 =
     (case mannwhitneyu_fn group1 group2 None of
        Inl e \<Rightarrow> Inl e
      | Inr (u_stat, _) \<Rightarrow>
          (let n1 = length group1; n2 = length group2;
               r = Fin 1 - (Fin 2 * u_stat) / of_count (n1 * n2)
           in Inr \<lparr>es_value = r, magnitude = r_magnitude r\<rparr>))"

definition calculate_epsilon_squared :: "sample list \<Rightarrow> npfloat \<Rightarrow> effect_size" where
  "calculate_epsilon_squared groups h_stat =
     (let n_total = int (length (concat groups));
          epsilon_sq = h_stat / of_pyint (n_total - 1)
      in \<lparr>es_value = epsilon_sq, magnitude = var_magnitude epsilon_sq\<rparr>)"

subsection \<open>Welch's ANOVA\<close>

definition welch_anova ::
  "(npfloat \<Rightarrow> npfloat \<Rightarrow> npfloat \<Rightarrow> npfloat) \<Rightarrow> sample list \<Rightarrow> npfloat \<times> npfloat" where
  "welch_anova f_cdf_fn groups =
     (let k = int (length groups);
          n_i = map (\<lambda>g. int (length g)) groups;
          mean_i = map np_mean groups;
          var_i = map np_var1 groups;
          w_i = map (\<lambda>(n, v). of_pyint n / v) (zip n_i var_i);
          w_sum = np_sum w_i;
          grand_mean = np_sum (map (\<lambda>(w, m). w * m) (zip w_i mean_i)) / w_sum;
          numerator =
            np_sum (map (\<lambda>(w, m). w * sq (m - grand_mean)) (zip w_i mean_i)) / of_pyint (k - 1);
          lambda_val =
            Fin 3 * np_sum (map (\<lambda>(w, n). sq (Fin 1 - w / w_sum) / of_pyint (n - 1)) (zip w_i n_i))
              / of_pyint (k * k - 1);
          denominator = Fin 1 + (of_pyint (2 * (k - 2)) * lambda_val) / of_pyint (k * k - 1);
          f_stat = numerator / denominator;
          df1 = of_pyint (k - 1);
          df2 = Fin 1 / lambda_val;
          p_value = Fin 1 - f_cdf_fn f_stat df1 df2
      in (f_stat, p_value))"

subsection \<open>Selecting and running the test\<close>

text \<open>
  \<open>perform_statistical_test\<close> first runs the branch chosen by the number of groups and
  the two assumption flags (\<open>run_selected_test\<close>: the test type, the statistic, the
  p-value and the effect size), then compares the p-value with the significance level.
\<close>

datatype test_type =
    One_sample_t_test
  | Independent_t_test
  | Welch_t_test
  | Mann_Whitney_U_test
  | One_way_ANOVA
  | Welch_ANOVA
  | Kruskal_Wallis_H_test

definition test_type_name :: "test_type \<Rightarrow> string" where
  "test_type_name t =
     (case t of
        One_sample_t_test \<Rightarrow> ''One-sample t-test''
      | Independent_t_test \<Rightarrow> ''Independent t-test''
      | Welch_t_test \<Rightarrow> ''Welch's t-test''
      | Mann_Whitney_U_test \<Rightarrow> ''Mann-Whitney U test''
      | One_way_ANOVA \<Rightarrow> ''One-way ANOVA''
      | Welch_ANOVA \<Rightarrow> ''Welch's ANOVA''
      | Kruskal_Wallis_H_test \<Rightarrow> ''Kruskal-Wallis H test'')"

record test_result =
  tr_test_type :: test_type
  tr_statistic :: npfloat
  tr_p_value :: npfloat
  tr_significant :: bool
  tr_effect_size :: effect_size

definition run_selected_test ::
  "scipy \<Rightarrow> sample list \<Rightarrow> bool \<Rightarrow> bool \<Rightarrow> pyerr + (test_type \<times> npfloat \<times> npfloat \<times> effect_size)" where
  "run_selected_test lib groups normal equal_var =
     (let n_groups = length groups in
      if n_groups = 1 then
        (case ttest_1samp lib (groups ! 0) (Fin 0) of
           Inl e \<Rightarrow> Inl e
         | Inr (t_stat, p) \<Rightarrow>
             Inr (One_sample_t_test, t_stat, p, calculate_cohens_d_one_sample (groups ! 0) (Fin 0)))
      else if n_groups = 2 then
        (if normal then
           (if equal_var then
              (case ttest_ind lib (groups ! 0) (groups ! 1) True of
                 Inl e \<Rightarrow> Inl e
               | Inr (t_stat, p) \<Rightarrow>
                   Inr (Independent_t_test, t_stat, p,
                        calculate_cohens_d (groups ! 0) (groups ! 1)))
            else
              (case ttest_ind lib (groups ! 0) (groups ! 1) False of
                 Inl e \<Rightarrow> Inl e
               | Inr (t_stat, p) \<Rightarrow>
                   Inr (Welch_t_test, t_stat, p, calculate_cohens_d (groups ! 0) (groups ! 1))))
         else
           (case mannwhitneyu lib (groups ! 0) (groups ! 1) (Some ''two-sided'') of
              Inl e \<Rightarrow> Inl e
            | Inr (u_stat, p) \<Rightarrow>
                (case calculate_rank_biserial (mannwhitneyu lib) (groups ! 0) (groups ! 1) of
                   Inl e \<Rightarrow> Inl e
                 | Inr es \<Rightarrow> Inr (Mann_Whitney_U_test, u_stat, p, es))))
      else
        (if normal then
           (if equal_var then
              (case f_oneway lib groups of
                 Inl e \<Rightarrow> Inl e
               | Inr (f_stat, p) \<Rightarrow>
                   (case calculate_eta_squared groups f_stat of
                      Inl e \<Rightarrow> Inl e
                    | Inr es \<Rightarrow> Inr (One_way_ANOVA, f_stat, p, es)))
            else
              (let fp = welch_anova (f_cdf lib) groups in
               case calculate_omega_squared (f_oneway lib) groups of
                 Inl e \<Rightarrow> Inl e
               | Inr es \<Rightarrow> Inr (Welch_ANOVA, fst fp, snd fp, es)))
         else
           (case kruskal lib groups of
              Inl e \<Rightarrow> Inl e
            | Inr (h_stat, p) \<Rightarrow>
                Inr (Kruskal_Wallis_H_test, h_stat, p, calculate_epsilon_squared groups h_stat))))"

definition perform_statistical_test ::
  "engine \<Rightarrow> scipy \<Rightarrow> sample list \<Rightarrow> label list \<Rightarrow> bool \<Rightarrow> bool \<Rightarrow> pyerr + test_result" where
  "perform_statistical_test self lib groups labels normal equal_var =
     (case run_selected_test lib groups normal equal_var of
        Inl e \<Rightarrow> Inl e
      | Inr (tt, t_stat, p, es) \<Rightarrow>
          Inr \<lparr>tr_test_type = tt, tr_statistic = t_stat, tr_p_value = p,
               tr_significant = (p < Fin (significance_level self)),
               tr_effect_size = es\<rparr>)"

subsection \<open>Post-hoc comparisons\<close>

record pair_result =
  pr_p_value :: npfloat
  pr_ci_lower :: npfloat
  pr_ci_upper :: npfloat

text \<open>
  \<open>1/n1\<close> and \<open>1/n2\<close> are quotients of Python integers and raise on an empty group.
\<close>

definition py_recip :: "nat \<Rightarrow> pyerr + real" where
  "py_recip n = (if n = 0 then Inl ZeroDivisionError else Inr (1 / real n))"

definition tukey_hsd_pair ::
  "(npfloat \<Rightarrow> npfloat) \<Rightarrow> sample \<Rightarrow> sample \<Rightarrow> nat \<Rightarrow> sample list \<Rightarrow> pyerr + pair_result" where
  "tukey_hsd_pair norm_cdf_fn group1 group2 k all_groups =
     (let n1 = length group1; n2 = length group2;
          mean1 = np_mean group1; mean2 = np_mean group2
      in case np_concatenate all_groups of
           Inl e \<Rightarrow> Inl e
         | Inr all_data \<Rightarrow>
             (case py_recip n1 of
                Inl e \<Rightarrow> Inl e
              | Inr r1 \<Rightarrow>
                  (case py_recip n2 of
                     Inl e \<Rightarrow> Inl e
                   | Inr r2 \<Rightarrow>
                       (let sse = np_sum (map (\<lambda>g. np_sum (map (\<lambda>x. sq (Fin x - np_mean g)) g))
                                            all_groups);
                            df_error = int (length all_data) - int k;
                            mse = sse / of_pyint df_error;
                            se = np_sqrt (mse * Fin (r1 + r2) / Fin 2);
                            q = abs (mean1 - mean2) / se;
                            p_value = Fin 1 - norm_cdf_fn (q / np_sqrt (Fin 2));
                            q_critical = Fin (35 / 10);
                            margin = q_critical * se
                        in Inr \<lparr>pr_p_value = p_value,
                                pr_ci_lower = (mean1 - mean2) - margin,
                                pr_ci_upper = (mean1 - mean2) + margin\<rparr>))))"

definition games_howell_pair :: "engine \<Rightarrow> scipy \<Rightarrow> sample \<Rightarrow> sample \<Rightarrow> pair_result" where
  "games_howell_pair self lib group1 group2 =
     (let n1 = int (length group1); n2 = int (length group2);
          mean1 = np_mean group1; mean2 = np_mean group2;
          var1 = np_var1 group1; var2 = np_var1 group2;
          se = np_sqrt (var1 / of_pyint n1 + var2 / of_pyint n2);
          t = abs (mean1 - mean2) / se;
          df = sq (var1 / of_pyint n1 + var2 / of_pyint n2)
                 / (sq (var1 / of_pyint n1) / of_pyint (n1 - 1)
                    + sq (var2 / of_pyint n2) / of_pyint (n2 - 1));
          p_value = Fin 2 * (Fin 1 - t_cdf lib t df);
          t_critical = t_ppf lib (Fin (1 - significance_level self / 2)) df;
          margin = t_critical * se
      in \<lparr>pr_p_value = p_value,
          pr_ci_lower = (mean1 - mean2) - margin,
          pr_ci_upper = (mean1 - mean2) + margin\<rparr>)"

text \<open>
  \<open>dunn_z\<close> is the z statistic of \<open>dunn_test_pair\<close>: the ranks of the pooled
  observations, the mean of the first \<open>n1\<close> ranks, the mean of the next \<open>n2\<close> ranks,
  and the standard error from the total count.
\<close>

definition dunn_z :: "sample \<Rightarrow> sample \<Rightarrow> sample list \<Rightarrow> pyerr + npfloat" where
  "dunn_z group1 group2 all_groups =
     (case np_concatenate all_groups of
        Inl e \<Rightarrow> Inl e
      | Inr all_data \<Rightarrow>
          (let n_total = length all_data;
               ranks = rankdata all_data;
               n1 = length group1; n2 = length group2;
               rank1 = np_mean (take n1 ranks);
               rank2 = np_mean (take n2 (drop n1 ranks))
           in case py_recip n1 of
                Inl e \<Rightarrow> Inl e
              | Inr r1 \<Rightarrow>
                  (case py_recip n2 of
                     Inl e \<Rightarrow> Inl e
                   | Inr r2 \<Rightarrow>
                       (let se = np_sqrt (Fin ((real n_total * (real n_total + 1) / 12)
                                               * (r1 + r2)))
                        in Inr (abs (rank1 - rank2) / se)))))"

definition dunn_test_pair ::
  "(npfloat \<Rightarrow> npfloat) \<Rightarrow> sample \<Rightarrow> sample \<Rightarrow> sample list \<Rightarrow> pyerr + pair_result" where
  "dunn_test_pair norm_cdf_fn group1 group2 all_groups =
     (case dunn_z group1 group2 all_groups of
        Inl e \<Rightarrow> Inl e
      | Inr z \<Rightarrow>
          Inr \<lparr>pr_p_value = Fin 2 * (Fin 1 - norm_cdf_fn z),
               pr_ci_lower = Fin 0, pr_ci_upper = Fin 0\<rparr>)"

datatype posthoc_method = Tukey_HSD | Games_Howell | Dunn_test

record comparison =
  cmp_group1 :: label
  cmp_group2 :: label
  mean_diff :: npfloat
  cmp_p_value :: npfloat
  adjusted_p :: npfloat
  cmp_significant :: bool
  cmp_ci_lower :: npfloat
  cmp_ci_upper :: npfloat

record post_hoc_result =
  ph_method :: posthoc_method
  comparisons :: "comparison list"
  bonferroni_alpha :: npfloat

text \<open>
  The membership tests \<open>'ANOVA' in test_type\<close> and \<open>'Kruskal' in test_type\<close> on the
  seven names a test can have.
\<close>

definition names_ANOVA :: "test_type \<Rightarrow> bool" where
  "names_ANOVA t = (t = One_way_ANOVA \<or> t = Welch_ANOVA)"

definition names_Kruskal :: "test_type \<Rightarrow> bool" where
  "names_Kruskal t = (t = Kruskal_Wallis_H_test)"

definition index_pairs :: "nat \<Rightarrow> (nat \<times> nat) list" where
  "index_pairs n = concat (map (\<lambda>i. map (\<lambda>j. (i, j)) [i + 1 ..< n]) [0 ..< n])"

definition n_comparisons :: "nat \<Rightarrow> real" where
  "n_comparisons n_groups = real (n_groups * (n_groups - 1)) / 2"

text \<open>
  One pass of the loop body for the pair \<open>(i, j)\<close>: \<open>None\<close> when the body ends in
  \<open>continue\<close>, otherwise the method it assigned and the comparison it appended.
\<close>

definition post_hoc_pair ::
  "engine \<Rightarrow> scipy \<Rightarrow> sample list \<Rightarrow> label list \<Rightarrow> test_type \<Rightarrow> bool \<Rightarrow> nat \<times> nat
     \<Rightarrow> pyerr + (posthoc_method \<times> comparison) option" where
  "post_hoc_pair self lib groups labels tt equal_var ij =
     (let i = fst ij; j = snd ij;
          n_groups = length groups;
          group1 = groups ! i; group2 = groups ! j
      in if length labels \<le> i \<or> length labels \<le> j then Inl IndexError
         else
           (let label1 = labels ! i; label2 = labels ! j in
            case (if names_ANOVA tt then
                    (if equal_var then
                       (case tukey_hsd_pair (norm_cdf lib) group1 group2 n_groups groups of
                          Inl e \<Rightarrow> Inl e
                        | Inr r \<Rightarrow> Inr (Some (Tukey_HSD, r)))
                     else Inr (Some (Games_Howell, games_howell_pair self lib group1 group2)))
                  else if names_Kruskal tt then
                    (case dunn_test_pair (norm_cdf lib) group1 group2 groups of
                       Inl e \<Rightarrow> Inl e
                     | Inr r \<Rightarrow> Inr (Some (Dunn_test, r)))
                  else Inr None)
            of
              Inl e \<Rightarrow> Inl e
            | Inr None \<Rightarrow> Inr None
            | Inr (Some (method, result)) \<Rightarrow>
                (let adj = py_min (pr_p_value result * Fin (n_comparisons n_groups)) (Fin 1)
                 in Inr (Some (method,
                      \<lparr>cmp_group1 = label1, cmp_group2 = label2,
                       mean_diff = np_mean group1 - np_mean group2,
                       cmp_p_value = pr_p_value result,
                       adjusted_p = adj,
                       cmp_significant = (adj < Fin (significance_level self)),
                       cmp_ci_lower = pr_ci_lower result,
                       cmp_ci_upper = pr_ci_upper result\<rparr>)))))"

text \<open>
  After the loops the result reads \<open>method\<close> and \<open>n_comparisons\<close>, which are bound only
  if some pass of the body got beyond its branch.
\<close>

definition perform_post_hoc ::
  "engine \<Rightarrow> scipy \<Rightarrow> sample list \<Rightarrow> label list \<Rightarrow> test_type \<Rightarrow> bool \<Rightarrow> bool
     \<Rightarrow> pyerr + post_hoc_result" where
  "perform_post_hoc self lib groups labels tt normal equal_var =
     (let n_groups = length groups in
      case try_map (post_hoc_pair self lib groups labels tt equal_var) (index_pairs n_groups) of
        Inl e \<Rightarrow> Inl e
      | Inr passes \<Rightarrow>
          (case List.map_filter id passes of
             [] \<Rightarrow> Inl (UnboundLocalError ''method'')
           | c # cs \<Rightarrow>
               Inr \<lparr>ph_method = fst (last (c # cs)),
                    comparisons = map snd (c # cs),
                    bonferroni_alpha =
                      Fin (significance_level self / n_comparisons n_groups)\<rparr>))"

subsection \<open>The pipeline\<close>

record request_options =
  opt_alpha :: "real option"
  opt_confidence :: "real option"

record request =
  groups :: "sample list"
  labels :: "label list option"
  options :: "request_options option"

record response =
  descriptive :: "descriptive_summary list"
  normality :: normality_results
  homogeneity :: homogeneity_results
  test :: test_result
  post_hoc :: "post_hoc_result option"

definition default_labels :: "nat \<Rightarrow> label list" where
  "default_labels n = map (\<lambda>i. Group_no (i + 1)) [0 ..< n]"

text \<open>
  \<open>request_labels\<close> is \<open>data.get('labels', default)\<close>. \<open>analyze\<close> returns
  \<open>Inr\<close> the response with \<open>success = True\<close>, or \<open>Inl\<close> the
  exception whose message it reports with \<open>success = False\<close>. It reads the keys
  \<open>groups\<close> and \<open>labels\<close> of the request and no other.
\<close>

definition request_labels :: "request \<Rightarrow> label list" where
  "request_labels data =
     (case labels data of
        Some given \<Rightarrow> given
      | None \<Rightarrow> default_labels (length (groups data)))"

definition analyze :: "engine \<Rightarrow> scipy \<Rightarrow> request \<Rightarrow> pyerr + response" where
  "analyze self lib data =
     (let gs = groups data;
          ls = request_labels data
      in case calculate_descriptive_stats self lib gs ls of
           Inl e \<Rightarrow> Inl e
         | Inr descriptive_stats \<Rightarrow>
             (case test_normality self lib gs ls of
                Inl e \<Rightarrow> Inl e
              | Inr normality_results \<Rightarrow>
                  (case test_homogeneity self lib gs ls of
                     Inl e \<Rightarrow> Inl e
                   | Inr homogeneity_results \<Rightarrow>
                       (case perform_statistical_test self lib gs ls
                               (all_normal normality_results)
                               (equal_variance homogeneity_results) of
                          Inl e \<Rightarrow> Inl e
                        | Inr test_results \<Rightarrow>
                            (case (if 2 < length gs \<and> tr_significant test_results then
                                     (case perform_post_hoc self lib gs ls
                                             (tr_test_type test_results)
                                             (all_normal normality_results)
                                             (equal_variance homogeneity_results) of
                                        Inl e \<Rightarrow> Inl e
                                      | Inr ph \<Rightarrow> Inr (Some ph))
                                   else Inr None)
                             of
                               Inl e \<Rightarrow> Inl e
                             | Inr post_hoc_results \<Rightarrow>
                                 Inr \<lparr>descriptive = descriptive_stats,
                                      normality = normality_results,
                                      homogeneity = homogeneity_results,
                                      test = test_results,
                                      post_hoc = post_hoc_results\<rparr>)))))"

section \<open>The formulas as the specification states them\<close>

text \<open>
  The specification gives three of the engine's computations as formulas over the groups
  \<open>0, \<dots>, k - 1\<close>. They are written here from its words, with the groups addressed by
  index, to be compared with the functions above.
\<close>

definition group_sum :: "nat \<Rightarrow> (nat \<Rightarrow> npfloat) \<Rightarrow> npfloat" where
  "group_sum k f = np_sum (map f [0 ..< k])"

definition within_ss :: "sample \<Rightarrow> npfloat" where
  "within_ss g = np_sum (map (\<lambda>x. sq (Fin x - np_mean g)) g)"

text \<open>
  Approximate Tukey HSD for the pair \<open>(i, j)\<close>: \<open>MSE\<close> is the pooled within-group sum
  of squares over \<open>N - k\<close>, \<open>se = sqrt (MSE (1/n\<^sub>i + 1/n\<^sub>j) / 2)\<close>,
  \<open>q = |mean\<^sub>i - mean\<^sub>j| / se\<close> and \<open>p = 2 (1 - \<Phi> (q / sqrt 2))\<close>.
\<close>

definition tukey_q_stated :: "sample list \<Rightarrow> nat \<Rightarrow> nat \<Rightarrow> npfloat" where
  "tukey_q_stated gs i j =
     (let k = length gs;
          N = length (concat gs);
          MSE = group_sum k (\<lambda>m. within_ss (gs ! m)) / of_pyint (int N - int k);
          se = np_sqrt (MSE * (Fin 1 / of_count (length (gs ! i)) + Fin 1 / of_count (length (gs ! j)))
                        / Fin 2)
      in abs (np_mean (gs ! i) - np_mean (gs ! j)) / se)"

definition tukey_p_stated :: "(npfloat \<Rightarrow> npfloat) \<Rightarrow> sample list \<Rightarrow> nat \<Rightarrow> nat \<Rightarrow> npfloat" where
  "tukey_p_stated Phi gs i j = Fin 2 * (Fin 1 - Phi (tukey_q_stated gs i j / np_sqrt (Fin 2)))"

text \<open>
  Dunn's test for the pair \<open>(i, j)\<close>: the mean rank of a group is the mean of the pooled
  ranks of its own observations; the tie term sums \<open>t\<^sup>3 - t\<close> over the groups of tied
  values; the rank variance is tie-corrected when ties exist.
\<close>

definition group_offset :: "sample list \<Rightarrow> nat \<Rightarrow> nat" where
  "group_offset gs i = length (concat (take i gs))"

definition mean_rank :: "sample list \<Rightarrow> nat \<Rightarrow> npfloat" where
  "mean_rank gs i =
     np_mean (take (length (gs ! i)) (drop (group_offset gs i) (rankdata (concat gs))))"

definition tie_term :: "sample \<Rightarrow> real" where
  "tie_term xs =
     sum_list (map (\<lambda>v. let t = real (length (filter (\<lambda>y. y = v) xs)) in t ^ 3 - t)
                   (remdups xs))"

definition rank_variance :: "sample \<Rightarrow> npfloat" where
  "rank_variance xs =
     (let N = real (length xs) in
      if 0 < tie_term xs
      then Fin (N * (N + 1) * (2 * N + 1) / 6 - tie_term xs / 2) / Fin (N - 1)
      else Fin (N * (N + 1) / 12))"

definition dunn_z_stated :: "sample list \<Rightarrow> nat \<Rightarrow> nat \<Rightarrow> npfloat" where
  "dunn_z_stated gs i j =
     abs (mean_rank gs i - mean_rank gs j)
       / np_sqrt (rank_variance (concat gs)
                  * (Fin 1 / of_count (length (gs ! i)) + Fin 1 / of_count (length (gs ! j))))"

text \<open>
  Welch's ANOVA: \<open>w\<^sub>i = n\<^sub>i / var\<^sub>i\<close>, \<open>W = \<Sum> w\<^sub>i\<close>, the weighted grand mean, the
  numerator, \<open>\<lambda>\<close>, the denominator, \<open>F\<close>, the degrees of freedom and the upper tail
  of the F distribution.
\<close>

definition welch_weight :: "sample list \<Rightarrow> nat \<Rightarrow> npfloat" where
  "welch_weight gs i = of_count (length (gs ! i)) / np_var1 (gs ! i)"

definition welch_lambda :: "sample list \<Rightarrow> npfloat" where
  "welch_lambda gs =
     (let k = length gs;
          W = group_sum k (welch_weight gs)
      in Fin 3 * group_sum k (\<lambda>i. sq (Fin 1 - welch_weight gs i / W)
                                      / of_pyint (int (length (gs ! i)) - 1))
           / of_pyint (int k * int k - 1))"

definition welch_F_stated :: "sample list \<Rightarrow> npfloat" where
  "welch_F_stated gs =
     (let k = length gs;
          W = group_sum k (welch_weight gs);
          grand_mean = group_sum k (\<lambda>i. welch_weight gs i * np_mean (gs ! i)) / W;
          numerator = group_sum k (\<lambda>i. welch_weight gs i * sq (np_mean (gs ! i) - grand_mean))
                        / of_pyint (int k - 1);
          denominator = Fin 1 + (of_pyint (2 * (int k - 2)) * welch_lambda gs)
                                  / of_pyint (int k * int k - 1)
      in numerator / denominator)"

definition welch_p_stated :: "(npfloat \<Rightarrow> npfloat \<Rightarrow> npfloat \<Rightarrow> npfloat) \<Rightarrow> sample list \<Rightarrow> npfloat" where
  "welch_p_stated F_cdf gs =
     Fin 1 - F_cdf (welch_F_stated gs) (of_pyint (int (length gs) - 1)) (Fin 1 / welch_lambda gs)"

section \<open>A library to run the engine on\<close>

text \<open>
  The standard normal distribution function, by its power series
  \<open>\<Phi> x = 1/2 + (\<Sum>n. (-1)\<^sup>n x\<^sup>2\<^sup>n\<^sup>+\<^sup>1 / (2\<^sup>n n! (2n+1))) / sqrt (2 \<pi>)\<close>, extended to the
  special values as \<open>scipy.stats.norm.cdf\<close> extends it.
\<close>

definition std_norm_cdf :: "real \<Rightarrow> real" where
  "std_norm_cdf x =
     1 / 2 + (\<Sum>n. (- 1) ^ n * x ^ (2 * n + 1) / (2 ^ n * fact n * real (2 * n + 1)))
             / sqrt (2 * pi)"

definition norm_cdf_np :: "npfloat \<Rightarrow> npfloat" where
  "norm_cdf_np a =
     (case a of Fin x \<Rightarrow> Fin (std_norm_cdf x) | PInf \<Rightarrow> Fin 1 | NInf \<Rightarrow> Fin 0 | NaN \<Rightarrow> NaN)"

text \<open>
  The F statistic of the ordinary one-way ANOVA, which \<open>scipy.stats.f_oneway\<close> returns:
  the mean square between the groups over the mean square within them.
\<close>

definition f_oneway_statistic :: "sample list \<Rightarrow> npfloat" where
  "f_oneway_statistic gs =
     (let k = int (length gs);
          N = int (length (concat gs));
          grand_mean = np_mean (concat gs);
          ss_between = np_sum (map (\<lambda>g. of_count (length g) * sq (np_mean g - grand_mean)) gs);
          ss_within = np_sum (map within_ss gs)
      in (ss_between / of_pyint (k - 1)) / (ss_within / of_pyint (N - k)))"

text \<open>
  To run the pipeline on a concrete request the library has to be given. \<open>library_with\<close>
  stands in for it: the Shapiro-Wilk test refuses fewer than three observations, as SciPy
  1.11 (the release of the bundled runtime) does, the normal distribution function and
  the F statistic are the ones above, and every other test reports the p-value it is set up with: \<open>p_norm\<close> for
  the normality tests, \<open>p_var\<close> for the variance tests, \<open>p_test\<close> for the omnibus tests.
\<close>

definition library_with :: "real \<Rightarrow> real \<Rightarrow> real \<Rightarrow> scipy" where
  "library_with p_norm p_var p_test =
     \<lparr>shapiro = (\<lambda>g. if length g < 3 then Inl (ValueError ''Data must be at least length 3.'')
                      else Inr (Fin 1, Fin p_norm)),
      kstest_norm = (\<lambda>xs. Inr (Fin 0, Fin p_norm)),
      skew = (\<lambda>g. Fin 0),
      kurtosis = (\<lambda>g. Fin 0),
      levene = (\<lambda>gs. Inr (Fin 1, Fin p_var)),
      bartlett = (\<lambda>gs. Inr (Fin 1, Fin p_var)),
      ttest_1samp = (\<lambda>g mu. Inr (Fin 1, Fin p_test)),
      ttest_ind = (\<lambda>g1 g2 equal_var. Inr (Fin 1, Fin p_test)),
      mannwhitneyu = (\<lambda>g1 g2 alternative. Inr (Fin 1, Fin p_test)),
      f_oneway = (\<lambda>gs. Inr (f_oneway_statistic gs, Fin p_test)),
      kruskal = (\<lambda>gs. Inr (Fin 2, Fin p_test)),
      norm_cdf = norm_cdf_np,
      t_cdf = (\<lambda>t df. Fin (99 / 100)),
      t_ppf = (\<lambda>q df. Fin 2),
      f_cdf = (\<lambda>f df1 df2. Fin (99 / 100))\<rparr>"

section \<open>Arithmetic on finite values\<close>

lemma Fin_plus [simp]: "Fin x + Fin y = Fin (x + y)"
  by (simp add: plus_npfloat_def)

lemma Fin_uminus [simp]: "- Fin x = Fin (- x)"
  by (simp add: uminus_npfloat_def)

lemma Fin_minus [simp]: "Fin x - Fin y = Fin (x - y)"
  by (simp add: minus_npfloat_def)

lemma Fin_times [simp]: "Fin x * Fin y = Fin (x * y)"
  by (simp add: times_npfloat_def)

lemma Fin_divide: "Fin x / Fin y =
    (if y \<noteq> 0 then Fin (x / y) else if x = 0 then NaN else if 0 < x then PInf else NInf)"
  by (simp add: divide_npfloat_def)

lemma Fin_divide_nz [simp]: "y \<noteq> 0 \<Longrightarrow> Fin x / Fin y = Fin (x / y)"
  by (simp add: Fin_divide)

lemma Fin_abs [simp]: "abs (Fin x) = Fin \<bar>x\<bar>"
  by (simp add: abs_npfloat_def)

lemma Fin_less [simp]: "Fin x < Fin y \<longleftrightarrow> x < y"
  by (simp add: less_npfloat_def)

lemma Fin_less_eq [simp]: "Fin x \<le> Fin y \<longleftrightarrow> x \<le> y"
  by (simp add: less_eq_npfloat_def)

lemma NaN_compare [simp]:
  "\<not> NaN < a" "\<not> a < NaN" "\<not> NaN \<le> a" "\<not> a \<le> NaN"
  by (simp_all add: less_npfloat_def less_eq_npfloat_def split: npfloat.splits)

lemma NaN_arith [simp]:
  "NaN + a = NaN" "a + NaN = NaN" "NaN - a = NaN" "a - NaN = NaN"
  "NaN * a = NaN" "a * NaN = NaN" "NaN / a = NaN" "a / NaN = NaN" "abs NaN = NaN"
  by (simp_all add: plus_npfloat_def minus_npfloat_def uminus_npfloat_def times_npfloat_def
      divide_npfloat_def abs_npfloat_def split: npfloat.splits)

lemma np_sqrt_Fin [simp]: "0 \<le> x \<Longrightarrow> np_sqrt (Fin x) = Fin (sqrt x)"
  by (simp add: np_sqrt_def)

lemma np_sqrt_NaN [simp]: "np_sqrt NaN = NaN"
  by (simp add: np_sqrt_def)

lemma np_sum_Nil [simp]: "np_sum [] = Fin 0"
  by (simp add: np_sum_def)

lemma np_sum_Cons [simp]: "np_sum (x # xs) = x + np_sum xs"
  by (simp add: np_sum_def)

lemma np_sum_Fin: "np_sum (map Fin xs) = Fin (sum_list xs)"
  by (induction xs) simp_all

lemma std_norm_cdf_0: "std_norm_cdf 0 = 1 / 2"
  by (simp add: std_norm_cdf_def)

section \<open>Facts about the pipeline\<close>

lemma np_mean_Fin: "np_mean g = Fin (sum_list g) / Fin (real (length g))"
  by (simp add: np_mean_def arr_def np_sum_Fin of_count_def)

lemma try_map_Inr_member:
  "try_map f xs = Inr ys \<Longrightarrow> x \<in> set xs \<Longrightarrow> \<exists>y. f x = Inr y"
  by (induction xs arbitrary: ys) (auto split: sum.splits)

lemma try_map_Inl_member:
  "x \<in> set xs \<Longrightarrow> f x = Inl e \<Longrightarrow> isl (try_map f xs)"
  by (cases "try_map f xs") (auto dest: try_map_Inr_member)

lemma zip_default_labels:
  "g \<in> set gs \<Longrightarrow> \<exists>l. (g, l) \<in> set (zip gs (default_labels (length gs)))"
  by (metis default_labels_def diff_zero in_set_impl_in_set_zip1 length_map length_upt)

lemma analyze_isl_normality:
  "isl (test_normality self lib (groups d) (request_labels d)) \<Longrightarrow> isl (analyze self lib d)"
  by (cases "calculate_descriptive_stats self lib (groups d) (request_labels d)")
     (auto simp add: analyze_def Let_def isl_def)

lemma normality_group_short:
  assumes "length g < 50"
  shows "normality_group self lib (g, l) =
     (case shapiro lib g of
        Inl e \<Rightarrow> Inl e
      | Inr (w, p) \<Rightarrow>
          Inr \<lparr>ne_label = l, ne_test = ''Shapiro-Wilk'', ne_statistic = w, ne_p_value = p,
               is_normal = (Fin (significance_level self) < p),
               skewness = skew lib g, kurtosis_excess = kurtosis lib g\<rparr>)"
proof (cases "shapiro lib g")
  case (Inl e)
  with assms show ?thesis by (simp add: normality_group_def)
next
  case (Inr wp)
  with assms show ?thesis by (cases wp) (simp add: normality_group_def)
qed



text \<open>
  C1. The claim: a sample with fewer than 3 observations is marked as insufficient data with
  is-normal false, and the analysis still completes with success. In the engine the
  normality stage has no branch for short samples: a sample with fewer than 3 observations
  goes to the Shapiro-Wilk test like any sample with fewer than 50, its entry (if the test
  returns) is an ordinary Shapiro-Wilk entry, and if the test raises on it, as SciPy's does,
  every request that contains the sample and no labels ends in failure.
\<close>

theorem short_sample_goes_to_shapiro:
  assumes "length g < 3"
  shows "normality_group self lib (g, l) =
     (case shapiro lib g of
        Inl e \<Rightarrow> Inl e
      | Inr (w, p) \<Rightarrow>
          Inr \<lparr>ne_label = l, ne_test = ''Shapiro-Wilk'', ne_statistic = w, ne_p_value = p,
               is_normal = (Fin (significance_level self) < p),
               skewness = skew lib g, kurtosis_excess = kurtosis lib g\<rparr>)
    \<and> (g \<in> set (groups d) \<and> labels d = None \<and> isl (shapiro lib g) \<longrightarrow> isl (analyze self lib d))"
proof (intro conjI impI)
  from assms have short: "length g < 50" by simp
  show "normality_group self lib (g, l) =
     (case shapiro lib g of
        Inl e \<Rightarrow> Inl e
      | Inr (w, p) \<Rightarrow>
          Inr \<lparr>ne_label = l, ne_test = ''Shapiro-Wilk'', ne_statistic = w, ne_p_value = p,
               is_normal = (Fin (significance_level self) < p),
               skewness = skew lib g, kurtosis_excess = kurtosis lib g\<rparr>)"
    by (rule normality_group_short [OF short])
  assume a: "g \<in> set (groups d) \<and> labels d = None \<and> isl (shapiro lib g)"
  from a have mem: "g \<in> set (groups d)" and nolab: "labels d = None" and fails: "isl (shapiro lib g)"
    by simp_all
  from zip_default_labels [OF mem]
  obtain l' where l': "(g, l') \<in> set (zip (groups d) (default_labels (length (groups d))))" ..
  from fails obtain e where e: "shapiro lib g = Inl e" by (cases "shapiro lib g") simp_all
  have "normality_group self lib (g, l') = Inl e"
    by (simp only: normality_group_short [OF short] e sum.case)
  with l' have "isl (try_map (normality_group self lib)
                      (zip (groups d) (default_labels (length (groups d)))))"
    by (rule try_map_Inl_member)
  then have "isl (test_normality self lib (groups d) (default_labels (length (groups d))))"
    by (cases "try_map (normality_group self lib)
                      (zip (groups d) (default_labels (length (groups d))))")
       (simp_all add: test_normality_def)
  then have "isl (test_normality self lib (groups d) (request_labels d))"
    by (simp add: nolab request_labels_def)
  then show "isl (analyze self lib d)"
    by (rule analyze_isl_normality)
qed

theorem short_sample_goes_to_shapiro_witness:
  "isl (analyze init (library_with (1/2) (1/2) (1/2)) \<lparr>groups = [[1, 2]], labels = None, options = None\<rparr>)"
  using short_sample_goes_to_shapiro [of "[1, 2]" init "library_with (1/2) (1/2) (1/2)" "Group_no 1"
               "\<lparr>groups = [[1, 2]], labels = None, options = None\<rparr>", THEN conjunct2]
  by (simp add: library_with_def)

lemmas stage_defs =
  analyze_def request_labels_def calculate_descriptive_stats_def describe_group_def np_min_def
  np_max_def np_median_def np_percentile_def np_std1_def np_var1_def np_mean_Fin sq_def
  of_pyint_def of_count_def test_normality_def normality_group_def test_homogeneity_def
  perform_statistical_test_def run_selected_test_def default_labels_def library_with_def
  init_def Fin_divide Let_def

text \<open>
  C2. The claim: with a group of standard deviation zero, every effect size and statistic
  of the response is finite or an explicit undefined marker, and the divisions of Cohen's d
  are guarded against a zero divisor. Neither function tests its divisor: five zeros give
  \<open>0/0\<close>, five fives give \<open>5/0\<close>, two constant groups give \<open>0/0\<close>, and the
  not-a-number value is the effect size of the response of the one-group request.
\<close>

theorem cohens_d_divides_by_zero_deviation:
  "es_value (calculate_cohens_d_one_sample [0, 0, 0, 0, 0] (Fin 0)) = NaN
   \<and> es_value (calculate_cohens_d_one_sample [5, 5, 5, 5, 5] (Fin 0)) = PInf
   \<and> es_value (calculate_cohens_d [1, 1] [1, 1]) = NaN
   \<and> map_sum id (\<lambda>r. es_value (tr_effect_size (test r)))
         (analyze init (library_with (1 / 2) (1 / 2) (1 / 2))
            \<lparr>groups = [[0, 0, 0, 0, 0]], labels = None, options = None\<rparr>) = Inr NaN"
proof (intro conjI)
  show "es_value (calculate_cohens_d_one_sample [0, 0, 0, 0, 0] (Fin 0)) = NaN"
    by (simp add: calculate_cohens_d_one_sample_def np_mean_Fin np_std1_def np_var1_def
        sq_def of_pyint_def Fin_divide)
  show "es_value (calculate_cohens_d_one_sample [5, 5, 5, 5, 5] (Fin 0)) = PInf"
    by (simp add: calculate_cohens_d_one_sample_def np_mean_Fin np_std1_def np_var1_def
        sq_def of_pyint_def Fin_divide)
  show "es_value (calculate_cohens_d [1, 1] [1, 1]) = NaN"
    by (simp add: calculate_cohens_d_def np_mean_Fin np_var1_def sq_def of_pyint_def Fin_divide)
  show "map_sum id (\<lambda>r. es_value (tr_effect_size (test r)))
         (analyze init (library_with (1 / 2) (1 / 2) (1 / 2))
            \<lparr>groups = [[0, 0, 0, 0, 0]], labels = None, options = None\<rparr>) = Inr NaN"
    by (simp add: stage_defs calculate_cohens_d_one_sample_def d_magnitude_def)
qed

lemma map_index: "map (\<lambda>m. f (gs ! m)) [0 ..< length gs] = map f gs"
  by (rule nth_equalityI) simp_all

text \<open>
  For every pair of non-empty groups the p-value of \<open>tukey_hsd_pair\<close> is
  \<open>1 - \<Phi> (q / sqrt 2)\<close> with the \<open>q\<close> of the specification: the standard error
  and \<open>q\<close> agree, the factor 2 is missing.
\<close>

lemma tukey_hsd_pair_p_value:
  assumes "i < length gs" "j < length gs" "gs ! i \<noteq> []" "gs ! j \<noteq> []"
  shows "map_sum id pr_p_value (tukey_hsd_pair Phi (gs ! i) (gs ! j) (length gs) gs)
         = Inr (Fin 1 - Phi (tukey_q_stated gs i j / np_sqrt (Fin 2)))"
proof -
  from assms have ne: "gs \<noteq> []" by auto
  have recip: "Fin (1 / real (length (gs ! i)) + 1 / real (length (gs ! j)))
      = Fin 1 / of_count (length (gs ! i)) + Fin 1 / of_count (length (gs ! j))"
    using assms by (simp add: of_count_def)
  note sse = map_index [of "\<lambda>g. np_sum (map (\<lambda>x. sq (Fin x - np_mean g)) g)" gs]
  show ?thesis
    using assms ne
    by (simp add: tukey_hsd_pair_def np_concatenate_def py_recip_def Let_def tukey_q_stated_def
        group_sum_def within_ss_def sse recip)
qed

text \<open>
  C3. The claim: under approximate Tukey HSD the raw p-value of a pair is
  \<open>2 (1 - \<Phi> (q / sqrt 2))\<close>. For the first two of the groups
  \<open>[1,2,3], [1,2,3], [4,5,6]\<close> the means are equal, \<open>q = 0\<close> and \<open>\<Phi> 0 = 1/2\<close>:
  \<open>tukey_hsd_pair\<close> returns \<open>1/2\<close> where the stated formula gives \<open>1\<close>.
\<close>

theorem tukey_p_value_lacks_factor_two:
  "map_sum id pr_p_value
     (tukey_hsd_pair norm_cdf_np [1, 2, 3] [1, 2, 3] 3 [[1, 2, 3], [1, 2, 3], [4, 5, 6]])
     = Inr (Fin (1 / 2))
   \<and> tukey_p_stated norm_cdf_np [[1, 2, 3], [1, 2, 3], [4, 5, 6]] 0 1 = Fin 1"
proof (intro conjI)
  show "map_sum id pr_p_value
     (tukey_hsd_pair norm_cdf_np [1, 2, 3] [1, 2, 3] 3 [[1, 2, 3], [1, 2, 3], [4, 5, 6]])
     = Inr (Fin (1 / 2))"
    by (simp add: tukey_hsd_pair_def np_concatenate_def py_recip_def np_mean_Fin sq_def
        of_pyint_def norm_cdf_np_def std_norm_cdf_0 Fin_divide)
  show "tukey_p_stated norm_cdf_np [[1, 2, 3], [1, 2, 3], [4, 5, 6]] 0 1 = Fin 1"
    by (simp add: tukey_p_stated_def tukey_q_stated_def group_sum_def within_ss_def np_mean_Fin
        sq_def of_pyint_def of_count_def norm_cdf_np_def std_norm_cdf_0 Fin_divide)
qed

lemma quotient_by_sqrt_inject:
  assumes "0 < a" "0 < b" "c \<noteq> 0" "c / sqrt a = c / sqrt b"
  shows "a = b"
proof -
  from assms have "sqrt a = sqrt b" by (simp add: frac_eq_eq)
  then show ?thesis by simp
qed

text \<open>
  C4. The claim: Dunn's z is \<open>|meanRank\<^sub>i - meanRank\<^sub>j| / sqrt (S\<^sup>2 (1/n\<^sub>i + 1/n\<^sub>j))\<close>
  with the mean pooled ranks of the groups \<open>i\<close> and \<open>j\<close> and the tie-corrected rank
  variance. \<open>dunn_test_pair\<close> takes the first \<open>n1\<close> and the next \<open>n2\<close> pooled ranks,
  whichever pair it is given, and never corrects for ties. For the groups
  \<open>[1,2], [3,4], [5,6]\<close> and the pair \<open>(0, 2)\<close> it compares the ranks of the groups 0
  and 1; for \<open>[1,1], [2,3], [4,5]\<close> and the pair \<open>(0, 1)\<close> it uses the variance without
  ties.
\<close>

theorem dunn_z_wrong_ranks_and_no_tie_correction:
  "dunn_z [1, 2] [5, 6] [[1, 2], [3, 4], [5, 6]] = Inr (Fin (2 / sqrt (7 / 2)))
   \<and> dunn_z_stated [[1, 2], [3, 4], [5, 6]] 0 2 = Fin (4 / sqrt (7 / 2))
   \<and> dunn_z [1, 1] [2, 3] [[1, 1], [2, 3], [4, 5]] = Inr (Fin (2 / sqrt (7 / 2)))
   \<and> dunn_z_stated [[1, 1], [2, 3], [4, 5]] 0 1 = Fin (2 / sqrt (88 / 5))
   \<and> (2 / sqrt (7 / 2) :: real) \<noteq> 4 / sqrt (7 / 2)
   \<and> (2 / sqrt (7 / 2) :: real) \<noteq> 2 / sqrt (88 / 5)"
proof (intro conjI)
  show "dunn_z [1, 2] [5, 6] [[1, 2], [3, 4], [5, 6]] = Inr (Fin (2 / sqrt (7 / 2)))"
    by (simp add: dunn_z_def np_concatenate_def py_recip_def np_mean_Fin rankdata_def Fin_divide)
  show "dunn_z_stated [[1, 2], [3, 4], [5, 6]] 0 2 = Fin (4 / sqrt (7 / 2))"
    by (simp add: dunn_z_stated_def mean_rank_def group_offset_def rank_variance_def
        tie_term_def np_mean_Fin rankdata_def of_count_def Fin_divide)
  show "dunn_z [1, 1] [2, 3] [[1, 1], [2, 3], [4, 5]] = Inr (Fin (2 / sqrt (7 / 2)))"
    by (simp add: dunn_z_def np_concatenate_def py_recip_def np_mean_Fin rankdata_def Fin_divide)
  show "dunn_z_stated [[1, 1], [2, 3], [4, 5]] 0 1 = Fin (2 / sqrt (88 / 5))"
    by (simp add: dunn_z_stated_def mean_rank_def group_offset_def rank_variance_def
        tie_term_def np_mean_Fin rankdata_def of_count_def Fin_divide)
  show "(2 / sqrt (7 / 2) :: real) \<noteq> 4 / sqrt (7 / 2)"
    by simp
  show "(2 / sqrt (7 / 2) :: real) \<noteq> 2 / sqrt (88 / 5)"
    using quotient_by_sqrt_inject [of "7 / 2" "88 / 5" 2] by auto
qed

lemma try_map_Inr_all2:
  "try_map f xs = Inr ys \<Longrightarrow> list_all2 (\<lambda>x y. f x = Inr y) xs ys"
  by (induction xs arbitrary: ys) (auto split: sum.splits)

lemma try_map_Inr_result:
  assumes "try_map f xs = Inr ys" "y \<in> set ys"
  shows "\<exists>x \<in> set xs. f x = Inr y"
proof -
  from assms(1) have a: "list_all2 (\<lambda>x y. f x = Inr y) xs ys" by (rule try_map_Inr_all2)
  from assms(2) obtain n where n: "n < length ys" "ys ! n = y" by (auto simp: in_set_conv_nth)
  from a n have "f (xs ! n) = Inr y" "n < length xs"
    by (auto simp: list_all2_conv_all_nth)
  then show ?thesis by (metis nth_mem)
qed

lemma analyze_Inr_D:
  assumes "analyze self lib d = Inr r"
  shows "calculate_descriptive_stats self lib (groups d) (request_labels d) = Inr (descriptive r)"
    and "test_normality self lib (groups d) (request_labels d) = Inr (normality r)"
    and "test_homogeneity self lib (groups d) (request_labels d) = Inr (homogeneity r)"
    and "perform_statistical_test self lib (groups d) (request_labels d)
           (all_normal (normality r)) (equal_variance (homogeneity r)) = Inr (test r)"
    and "(if 2 < length (groups d) \<and> tr_significant (test r)
          then map_sum id Some
                 (perform_post_hoc self lib (groups d) (request_labels d) (tr_test_type (test r))
                    (all_normal (normality r)) (equal_variance (homogeneity r)))
          else Inr None) = Inr (post_hoc r)"
proof -
  let ?gs = "groups d" and ?ls = "request_labels d"
  obtain ds where ds: "calculate_descriptive_stats self lib ?gs ?ls = Inr ds"
    using assms by (cases "calculate_descriptive_stats self lib ?gs ?ls")
      (simp_all add: analyze_def Let_def)
  obtain nr where nr: "test_normality self lib ?gs ?ls = Inr nr"
    using assms ds by (cases "test_normality self lib ?gs ?ls")
      (simp_all add: analyze_def Let_def)
  obtain hr where hr: "test_homogeneity self lib ?gs ?ls = Inr hr"
    using assms ds nr by (cases "test_homogeneity self lib ?gs ?ls")
      (simp_all add: analyze_def Let_def)
  obtain tr where tr: "perform_statistical_test self lib ?gs ?ls
           (all_normal nr) (equal_variance hr) = Inr tr"
    using assms ds nr hr
    by (cases "perform_statistical_test self lib ?gs ?ls (all_normal nr) (equal_variance hr)")
      (simp_all add: analyze_def Let_def)
  let ?ph = "(if 2 < length ?gs \<and> tr_significant tr
          then map_sum id Some
                 (perform_post_hoc self lib ?gs ?ls (tr_test_type tr)
                    (all_normal nr) (equal_variance hr))
          else Inr None)"
  have eq: "analyze self lib d =
      (case ?ph of Inl e \<Rightarrow> Inl e
       | Inr p \<Rightarrow> Inr \<lparr>descriptive = ds, normality = nr, homogeneity = hr, test = tr,
                       post_hoc = p\<rparr>)"
    by (cases "perform_post_hoc self lib ?gs ?ls (tr_test_type tr)
                    (all_normal nr) (equal_variance hr)")
       (simp_all add: analyze_def Let_def ds nr hr tr)
  obtain p where p: "?ph = Inr p"
    using assms eq by (cases ?ph) simp_all
  from assms eq p have r: "r = \<lparr>descriptive = ds, normality = nr, homogeneity = hr, test = tr,
                       post_hoc = p\<rparr>" by simp
  show "calculate_descriptive_stats self lib ?gs ?ls = Inr (descriptive r)" by (simp add: r ds)
  show "test_normality self lib ?gs ?ls = Inr (normality r)" by (simp add: r nr)
  show "test_homogeneity self lib ?gs ?ls = Inr (homogeneity r)" by (simp add: r hr)
  show "perform_statistical_test self lib ?gs ?ls
           (all_normal (normality r)) (equal_variance (homogeneity r)) = Inr (test r)"
    by (simp add: r tr)
  show "(if 2 < length ?gs \<and> tr_significant (test r)
          then map_sum id Some
                 (perform_post_hoc self lib ?gs ?ls (tr_test_type (test r))
                    (all_normal (normality r)) (equal_variance (homogeneity r)))
          else Inr None) = Inr (post_hoc r)"
    using p by (auto simp add: r split: if_splits)
qed

lemma index_pairs_member:
  "(i, j) \<in> set (index_pairs n) \<Longrightarrow> i < j \<and> j < n"
  by (auto simp add: index_pairs_def)

lemma n_comparisons_ge_1:
  assumes "2 \<le> n" shows "1 \<le> n_comparisons n"
proof -
  from assms have "2 * 1 \<le> n * (n - 1)" by (intro mult_le_mono) auto
  then have "real 2 \<le> real (n * (n - 1))" by (simp only: of_nat_le_iff)
  then show ?thesis by (simp add: n_comparisons_def del: of_nat_mult)
qed

lemma post_hoc_pair_Some_D:
  assumes "post_hoc_pair self lib gs ls tt eqv ij = Inr (Some (m, c))"
  shows "adjusted_p c = py_min (cmp_p_value c * Fin (n_comparisons (length gs))) (Fin 1)"
    and "cmp_significant c = (adjusted_p c < Fin (significance_level self))"
    and "mean_diff c = np_mean (gs ! fst ij) - np_mean (gs ! snd ij)"
  using assms
  by (auto simp add: post_hoc_pair_def Let_def split: if_splits sum.splits option.splits prod.splits)

lemma perform_post_hoc_Inr_D:
  assumes "perform_post_hoc self lib gs ls tt nrm eqv = Inr ph"
  shows "bonferroni_alpha ph = Fin (significance_level self / n_comparisons (length gs))"
    and "c \<in> set (comparisons ph) \<Longrightarrow>
           \<exists>ij m. ij \<in> set (index_pairs (length gs))
                  \<and> post_hoc_pair self lib gs ls tt eqv ij = Inr (Some (m, c))"
proof -
  obtain passes where passes:
    "try_map (post_hoc_pair self lib gs ls tt eqv) (index_pairs (length gs)) = Inr passes"
    using assms
    by (cases "try_map (post_hoc_pair self lib gs ls tt eqv) (index_pairs (length gs))")
       (simp_all add: perform_post_hoc_def)
  obtain x xs where done_passes: "List.map_filter id passes = x # xs"
    using assms passes
    by (cases "List.map_filter id passes") (simp_all add: perform_post_hoc_def)
  from assms passes done_passes
  have ph: "ph = \<lparr>ph_method = fst (last (x # xs)), comparisons = map snd (x # xs),
                  bonferroni_alpha = Fin (significance_level self / n_comparisons (length gs))\<rparr>"
    by (simp add: perform_post_hoc_def)
  show "bonferroni_alpha ph = Fin (significance_level self / n_comparisons (length gs))"
    by (simp add: ph)
  assume "c \<in> set (comparisons ph)"
  then have "c \<in> snd ` set (List.map_filter id passes)"
    by (simp add: ph done_passes)
  then obtain m where "(m, c) \<in> set (List.map_filter id passes)"
    by force
  then have "Some (m, c) \<in> set passes"
    by (auto simp add: List.map_filter_def)
  from try_map_Inr_result [OF passes this]
  show "\<exists>ij m. ij \<in> set (index_pairs (length gs))
                  \<and> post_hoc_pair self lib gs ls tt eqv ij = Inr (Some (m, c))"
    by blast
qed

lemma py_min_probability:
  assumes "1 \<le> C" "0 \<le> r" "r \<le> 1"
  shows "Fin r \<le> py_min (Fin r * Fin C) (Fin 1)" "py_min (Fin r * Fin C) (Fin 1) \<le> Fin 1"
proof -
  from assms have "r * 1 \<le> r * C" by (intro mult_left_mono) auto
  then have "r \<le> r * C" by simp
  with assms show "Fin r \<le> py_min (Fin r * Fin C) (Fin 1)"
    by (simp add: py_min_def)
  show "py_min (Fin r * Fin C) (Fin 1) \<le> Fin 1"
    by (simp add: py_min_def)
qed

lemmas post_hoc_defs =
  perform_post_hoc_def post_hoc_pair_def index_pairs_def n_comparisons_def names_ANOVA_def
  names_Kruskal_def tukey_hsd_pair_def games_howell_pair_def dunn_test_pair_def dunn_z_def
  np_concatenate_def py_recip_def py_min_def List.map_filter_def upt_rec [of 0] upt_rec [of 1]
  upt_rec [of 2] upt_rec [of 3]

lemmas effect_defs =
  calculate_cohens_d_def calculate_cohens_d_one_sample_def d_magnitude_def
  calculate_eta_squared_def calculate_omega_squared_def omega_formula_def py_max_def
  var_magnitude_def calculate_rank_biserial_def r_magnitude_def calculate_epsilon_squared_def
  welch_anova_def f_oneway_statistic_def within_ss_def

text \<open>
  C7. For every successful analysis the post-hoc field is present exactly when there are
  more than two groups and the omnibus test is significant; a request with two groups never
  has it.
\<close>

theorem post_hoc_iff_many_groups_and_significant:
  assumes "analyze self lib d = Inr r"
  shows "post_hoc r \<noteq> None \<longleftrightarrow> 2 < length (groups d) \<and> tr_significant (test r)"
proof (cases "2 < length (groups d) \<and> tr_significant (test r)")
  case True
  with analyze_Inr_D(5) [OF assms]
  have "map_sum id Some
                 (perform_post_hoc self lib (groups d) (request_labels d) (tr_test_type (test r))
                    (all_normal (normality r)) (equal_variance (homogeneity r))) = Inr (post_hoc r)"
    by simp
  then have "post_hoc r \<noteq> None"
    by (cases "perform_post_hoc self lib (groups d) (request_labels d) (tr_test_type (test r))
                    (all_normal (normality r)) (equal_variance (homogeneity r))")
       (auto dest: sym)
  with True show ?thesis by simp
next
  case False
  with analyze_Inr_D(5) [OF assms] have "post_hoc r = None" by auto
  with False show ?thesis by simp
qed



theorem post_hoc_iff_many_groups_and_significant_witness:
  "\<not> isl (analyze init (library_with (1 / 2) (1 / 100) (1 / 100))
            \<lparr>groups = [[1, 2, 3], [2, 3, 4], [6, 8, 13]], labels = None, options = None\<rparr>)
   \<and> (post_hoc (projr (analyze init (library_with (1 / 2) (1 / 100) (1 / 100))
            \<lparr>groups = [[1, 2, 3], [2, 3, 4], [6, 8, 13]], labels = None, options = None\<rparr>))
          \<noteq> None)
   \<and> \<not> isl (analyze init (library_with (1 / 2) (1 / 2) (1 / 100))
            \<lparr>groups = [[1, 2, 3], [6, 8, 13]], labels = None, options = None\<rparr>)
   \<and> tr_significant (test (projr (analyze init (library_with (1 / 2) (1 / 2) (1 / 100))
            \<lparr>groups = [[1, 2, 3], [6, 8, 13]], labels = None, options = None\<rparr>)))
   \<and> post_hoc (projr (analyze init (library_with (1 / 2) (1 / 2) (1 / 100))
            \<lparr>groups = [[1, 2, 3], [6, 8, 13]], labels = None, options = None\<rparr>)) = None"
proof -
  let ?a3 = "analyze init (library_with (1 / 2) (1 / 100) (1 / 100))
            \<lparr>groups = [[1, 2, 3], [2, 3, 4], [6, 8, 13]], labels = None, options = None\<rparr>"
  let ?a2 = "analyze init (library_with (1 / 2) (1 / 2) (1 / 100))
            \<lparr>groups = [[1, 2, 3], [6, 8, 13]], labels = None, options = None\<rparr>"
  have ok3: "\<not> isl ?a3"
    by (simp add: stage_defs post_hoc_defs effect_defs)
  have sig3: "tr_significant (test (projr ?a3))"
    by (simp add: stage_defs post_hoc_defs effect_defs)
  have ok2: "\<not> isl ?a2"
    by (simp add: stage_defs post_hoc_defs effect_defs)
  have sig2: "tr_significant (test (projr ?a2))"
    by (simp add: stage_defs post_hoc_defs effect_defs)
  from ok3 have r3: "?a3 = Inr (projr ?a3)" by simp
  from ok2 have r2: "?a2 = Inr (projr ?a2)" by simp
  from post_hoc_iff_many_groups_and_significant [OF r3] sig3 have "post_hoc (projr ?a3) \<noteq> None" by simp
  moreover from post_hoc_iff_many_groups_and_significant [OF r2] have "post_hoc (projr ?a2) = None" by simp
  ultimately show ?thesis using ok3 ok2 sig2 by blast
qed

lemma py_min_at_most_1:
  assumes "0 < C" "a \<noteq> NaN"
  shows "py_min (a * Fin C) (Fin 1) \<le> Fin 1"
  using assms
  by (cases a) (simp_all add: py_min_def times_npfloat_def less_npfloat_def less_eq_npfloat_def)

text \<open>
  C8. The claim: for every comparison of a post-hoc analysis over \<open>k\<close> groups the
  adjusted p-value is \<open>min (raw_p C) 1\<close> with \<open>C = k (k - 1) / 2\<close>, so that it is at
  least the raw p-value and at most 1, and the reported corrected level is the significance
  level over \<open>C\<close>. The formula and the corrected level hold for every comparison. The
  two bounds do not: Python's \<open>min\<close> keeps a not-a-number raw p-value, and no comparison
  with it holds. As amended: the adjusted p-value is at most 1 whenever the raw p-value is
  not not-a-number, it is at least the raw p-value whenever that is a probability, and it
  is not-a-number whenever the raw p-value is.
\<close>

theorem bonferroni_adjustment:
  assumes "perform_post_hoc self lib gs ls tt nrm eqv = Inr ph"
    and "c \<in> set (comparisons ph)"
  shows "adjusted_p c = py_min (cmp_p_value c * Fin (real (length gs * (length gs - 1)) / 2)) (Fin 1)
    \<and> bonferroni_alpha ph
        = Fin (significance_level self / (real (length gs * (length gs - 1)) / 2))
    \<and> (Fin 0 \<le> cmp_p_value c \<and> cmp_p_value c \<le> Fin 1 \<longrightarrow>
         cmp_p_value c \<le> adjusted_p c \<and> adjusted_p c \<le> Fin 1)
    \<and> (cmp_p_value c \<noteq> NaN \<longrightarrow> adjusted_p c \<le> Fin 1)
    \<and> (cmp_p_value c = NaN \<longrightarrow> adjusted_p c = NaN)"
proof -
  from perform_post_hoc_Inr_D(2) [OF assms]
  obtain ij m where ij: "ij \<in> set (index_pairs (length gs))"
    and pair: "post_hoc_pair self lib gs ls tt eqv ij = Inr (Some (m, c))"
    by blast
  obtain i j where "ij = (i, j)" by (cases ij)
  with ij have "i < j \<and> j < length gs" by (simp add: index_pairs_member)
  then have "2 \<le> length gs" by simp
  then have C: "1 \<le> n_comparisons (length gs)" by (rule n_comparisons_ge_1)
  then have Cpos: "0 < n_comparisons (length gs)" by simp
  note adj = post_hoc_pair_Some_D(1) [OF pair]
  have prob: "cmp_p_value c \<le> adjusted_p c \<and> adjusted_p c \<le> Fin 1"
    if "Fin 0 \<le> cmp_p_value c \<and> cmp_p_value c \<le> Fin 1"
  proof -
    from that obtain r where r: "cmp_p_value c = Fin r" "0 \<le> r" "r \<le> 1"
      by (cases "cmp_p_value c") (simp_all add: less_eq_npfloat_def)
    from py_min_probability [OF C r(2) r(3)] show ?thesis
      by (simp only: adj r(1))
  qed
  have number: "adjusted_p c \<le> Fin 1" if "cmp_p_value c \<noteq> NaN"
    using py_min_at_most_1 [OF Cpos that] by (simp only: adj)
  have nan: "adjusted_p c = NaN" if "cmp_p_value c = NaN"
    by (simp add: adj that py_min_def)
  from adj perform_post_hoc_Inr_D(1) [OF assms(1)] prob number nan show ?thesis
    by (simp add: n_comparisons_def)
qed


theorem bonferroni_adjustment_witness:
  "cmp_p_value (hd (comparisons (projr (perform_post_hoc init (library_with (1 / 2) (1 / 100) (1 / 100))
       [[1, 2, 3], [2, 3, 4], [6, 8, 13]] (default_labels 3) Welch_ANOVA True False)))) = Fin (1 / 50)
   \<and> adjusted_p (hd (comparisons (projr (perform_post_hoc init (library_with (1 / 2) (1 / 100) (1 / 100))
       [[1, 2, 3], [2, 3, 4], [6, 8, 13]] (default_labels 3) Welch_ANOVA True False)))) = Fin (3 / 50)
   \<and> bonferroni_alpha (projr (perform_post_hoc init (library_with (1 / 2) (1 / 100) (1 / 100))
       [[1, 2, 3], [2, 3, 4], [6, 8, 13]] (default_labels 3) Welch_ANOVA True False)) = Fin (1 / 60)"
proof -
  let ?p = "perform_post_hoc init (library_with (1 / 2) (1 / 100) (1 / 100))
       [[1, 2, 3], [2, 3, 4], [6, 8, 13]] (default_labels 3) Welch_ANOVA True False"
  let ?c = "hd (comparisons (projr ?p))"
  have ok: "\<not> isl ?p"
    by (simp add: stage_defs post_hoc_defs)
  then have r: "?p = Inr (projr ?p)" by simp
  have mem: "?c \<in> set (comparisons (projr ?p))"
    by (simp add: stage_defs post_hoc_defs)
  have raw: "cmp_p_value ?c = Fin (1 / 50)"
    by (simp add: stage_defs post_hoc_defs)
  from bonferroni_adjustment [OF r mem] raw show ?thesis
    by (simp add: py_min_def init_def)
qed

text \<open>
  Under Tukey HSD the groups \<open>[1,1], [1,1], [3,3]\<close> have no within-group variation: the
  standard error is 0, the first pair has \<open>q = 0/0\<close>, and its raw and adjusted p-values
  are both not-a-number.
\<close>

theorem bonferroni_bounds_fail_on_nan:
  "map_sum id (\<lambda>ph. map (\<lambda>c. (cmp_p_value c, adjusted_p c)) (comparisons ph))
     (perform_post_hoc init (library_with (1 / 2) (1 / 2) (1 / 100))
        [[1, 1], [1, 1], [3, 3]] (default_labels 3) One_way_ANOVA True True)
     = Inr [(NaN, NaN), (Fin 0, Fin 0), (Fin 0, Fin 0)]
   \<and> \<not> (NaN :: npfloat) \<le> NaN \<and> \<not> (NaN :: npfloat) \<le> Fin 1"
  by (simp add: stage_defs post_hoc_defs norm_cdf_np_def divide_npfloat_def
      minus_npfloat_def plus_npfloat_def uminus_npfloat_def times_npfloat_def
      abs_npfloat_def np_sqrt_def less_npfloat_def)


lemma test_homogeneity_Inr_D:
  assumes "2 \<le> length gs" "test_homogeneity self lib gs ls = Inr h"
  shows "\<exists>lev_s lev_p bar_s bar_p.
           levene lib gs = Inr (lev_s, lev_p) \<and> bartlett lib gs = Inr (bar_s, bar_p)
           \<and> h = \<lparr>hr_results = Some
                \<lparr>hd_levene = \<lparr>vt_statistic = lev_s, vt_p_value = lev_p,
                              vt_assumption_met = (Fin (significance_level self) < lev_p)\<rparr>,
                 hd_bartlett = \<lparr>vt_statistic = bar_s, vt_p_value = bar_p,
                                vt_assumption_met = (Fin (significance_level self) < bar_p)\<rparr>\<rparr>,
                equal_variance = (Fin (significance_level self) < lev_p)\<rparr>"
proof -
  from assms(1) have len: "\<not> length gs < 2" by simp
  note h = assms(2)
  obtain lev_s lev_p where lev: "levene lib gs = Inr (lev_s, lev_p)"
    using h len by (cases "levene lib gs") (auto simp add: test_homogeneity_def)
  obtain bar_s bar_p where bar: "bartlett lib gs = Inr (bar_s, bar_p)"
    using h len lev by (cases "bartlett lib gs") (auto simp add: test_homogeneity_def)
  from h len lev bar
  have "h = \<lparr>hr_results = Some
                \<lparr>hd_levene = \<lparr>vt_statistic = lev_s, vt_p_value = lev_p,
                              vt_assumption_met = (Fin (significance_level self) < lev_p)\<rparr>,
                 hd_bartlett = \<lparr>vt_statistic = bar_s, vt_p_value = bar_p,
                                vt_assumption_met = (Fin (significance_level self) < bar_p)\<rparr>\<rparr>,
             equal_variance = (Fin (significance_level self) < lev_p)\<rparr>"
    by (simp add: test_homogeneity_def Let_def)
  with lev bar show ?thesis by blast
qed

text \<open>
  C9. With fewer than two groups the homogeneity stage answers equal variance with no
  detailed results. With two or more it runs both Levene's and Bartlett's test, reports
  both, and decides equal variance by Levene's p-value alone, compared with the
  significance level of the engine (0.05 as constructed).
\<close>

theorem homogeneity_decided_by_levene:
  "(length gs < 2 \<longrightarrow>
      test_homogeneity self lib gs ls = Inr \<lparr>hr_results = None, equal_variance = True\<rparr>)
   \<and> (2 \<le> length gs \<and> test_homogeneity self lib gs ls = Inr h \<longrightarrow>
        (\<exists>lev_s lev_p bar_s bar_p.
           levene lib gs = Inr (lev_s, lev_p) \<and> bartlett lib gs = Inr (bar_s, bar_p)
           \<and> equal_variance h = (Fin (significance_level self) < lev_p)
           \<and> hr_results h = Some
                \<lparr>hd_levene = \<lparr>vt_statistic = lev_s, vt_p_value = lev_p,
                              vt_assumption_met = (Fin (significance_level self) < lev_p)\<rparr>,
                 hd_bartlett = \<lparr>vt_statistic = bar_s, vt_p_value = bar_p,
                                vt_assumption_met = (Fin (significance_level self) < bar_p)\<rparr>\<rparr>))
   \<and> significance_level init = 5 / 100"
proof (intro conjI impI)
  assume "length gs < 2"
  then show "test_homogeneity self lib gs ls = Inr \<lparr>hr_results = None, equal_variance = True\<rparr>"
    by (simp add: test_homogeneity_def)
next
  assume a: "2 \<le> length gs \<and> test_homogeneity self lib gs ls = Inr h"
  then have "2 \<le> length gs" and "test_homogeneity self lib gs ls = Inr h" by simp_all
  from test_homogeneity_Inr_D [OF this]
  obtain lev_s lev_p bar_s bar_p where
    "levene lib gs = Inr (lev_s, lev_p)" "bartlett lib gs = Inr (bar_s, bar_p)"
    "h = \<lparr>hr_results = Some
                \<lparr>hd_levene = \<lparr>vt_statistic = lev_s, vt_p_value = lev_p,
                              vt_assumption_met = (Fin (significance_level self) < lev_p)\<rparr>,
                 hd_bartlett = \<lparr>vt_statistic = bar_s, vt_p_value = bar_p,
                                vt_assumption_met = (Fin (significance_level self) < bar_p)\<rparr>\<rparr>,
                equal_variance = (Fin (significance_level self) < lev_p)\<rparr>"
    by blast
  then show "\<exists>lev_s lev_p bar_s bar_p.
           levene lib gs = Inr (lev_s, lev_p) \<and> bartlett lib gs = Inr (bar_s, bar_p)
           \<and> equal_variance h = (Fin (significance_level self) < lev_p)
           \<and> hr_results h = Some
                \<lparr>hd_levene = \<lparr>vt_statistic = lev_s, vt_p_value = lev_p,
                              vt_assumption_met = (Fin (significance_level self) < lev_p)\<rparr>,
                 hd_bartlett = \<lparr>vt_statistic = bar_s, vt_p_value = bar_p,
                                vt_assumption_met = (Fin (significance_level self) < bar_p)\<rparr>\<rparr>"
    by simp
next
  show "significance_level init = 5 / 100" by (simp add: init_def)
qed

theorem homogeneity_decided_by_levene_witness:
  "test_homogeneity init (library_with (1 / 2) (1 / 100) (1 / 2)) [[1, 2, 3]] [Group_no 1]
     = Inr \<lparr>hr_results = None, equal_variance = True\<rparr>
   \<and> \<not> isl (test_homogeneity init (library_with (1 / 2) (1 / 100) (1 / 2))
              [[1, 2, 3], [6, 8, 13]] (default_labels 2))
   \<and> \<not> equal_variance (projr (test_homogeneity init (library_with (1 / 2) (1 / 100) (1 / 2))
              [[1, 2, 3], [6, 8, 13]] (default_labels 2)))"
  using homogeneity_decided_by_levene [of "[[1, 2, 3]]" init
          "library_with (1 / 2) (1 / 100) (1 / 2)" "[Group_no 1]"]
        homogeneity_decided_by_levene [of "[[1, 2, 3], [6, 8, 13]]" init
          "library_with (1 / 2) (1 / 100) (1 / 2)" "default_labels 2"
          "projr (test_homogeneity init (library_with (1 / 2) (1 / 100) (1 / 2))
              [[1, 2, 3], [6, 8, 13]] (default_labels 2))"]
  by (simp add: test_homogeneity_def library_with_def init_def)

lemma zip_map_index:
  "map (case_prod h) (zip (map W [0 ..< length gs]) (map M gs))
     = map (\<lambda>i. h (W i) (M (gs ! i))) [0 ..< length gs]"
  by (rule nth_equalityI) simp_all

lemma welch_weights:
  "map (\<lambda>(n, v). of_pyint n / v) (zip (map (\<lambda>g. int (length g)) gs) (map np_var1 gs))
     = map (welch_weight gs) [0 ..< length gs]"
  by (rule nth_equalityI) (simp_all add: welch_weight_def of_pyint_def of_count_def)

lemma welch_anova_stated:
  "welch_anova F gs = (welch_F_stated gs, welch_p_stated F gs)"
  by (simp add: welch_anova_def welch_F_stated_def welch_p_stated_def welch_lambda_def
      group_sum_def Let_def welch_weights zip_map_index)

lemma welch_branch:
  assumes "2 < length gs" "perform_statistical_test self lib gs ls True False = Inr t"
  shows "tr_test_type t = Welch_ANOVA"
    and "tr_statistic t = fst (welch_anova (f_cdf lib) gs)"
    and "tr_p_value t = snd (welch_anova (f_cdf lib) gs)"
    and "\<exists>F p. f_oneway lib gs = Inr (F, p)
           \<and> es_value (tr_effect_size t)
               = py_max (Fin 0) (omega_formula F (int (length (concat gs)) - int (length gs))
                                   (int (length gs) - 1))"
proof -
  from assms(1) have k: "length gs \<noteq> 1" "length gs \<noteq> 2" "int (length gs) - 1 \<noteq> 0" by simp_all
  obtain F p where Fp: "f_oneway lib gs = Inr (F, p)"
    using assms(2) k
    by (cases "f_oneway lib gs")
       (auto simp add: perform_statistical_test_def run_selected_test_def
          calculate_omega_squared_def Let_def)
  from assms(2) k Fp
  have t: "t = \<lparr>tr_test_type = Welch_ANOVA, tr_statistic = fst (welch_anova (f_cdf lib) gs),
      tr_p_value = snd (welch_anova (f_cdf lib) gs),
      tr_significant = (snd (welch_anova (f_cdf lib) gs) < Fin (significance_level self)),
      tr_effect_size =
        \<lparr>es_value = py_max (Fin 0) (omega_formula F (int (length (concat gs)) - int (length gs))
                                   (int (length gs) - 1)),
         magnitude = var_magnitude
            (py_max (Fin 0) (omega_formula F (int (length (concat gs)) - int (length gs))
                                   (int (length gs) - 1)))\<rparr>\<rparr>"
    by (simp add: perform_statistical_test_def run_selected_test_def
          calculate_omega_squared_def Let_def)
  show "tr_test_type t = Welch_ANOVA" by (simp add: t)
  show "tr_statistic t = fst (welch_anova (f_cdf lib) gs)" by (simp add: t)
  show "tr_p_value t = snd (welch_anova (f_cdf lib) gs)" by (simp add: t)
  show "\<exists>F p. f_oneway lib gs = Inr (F, p)
           \<and> es_value (tr_effect_size t)
               = py_max (Fin 0) (omega_formula F (int (length (concat gs)) - int (length gs))
                                   (int (length gs) - 1))"
    using Fp by (simp add: t)
qed

text \<open>
  C6. For every request with more than two groups whose normality stage finds all groups
  normal and whose homogeneity stage finds unequal variances, the test is Welch's ANOVA and
  its statistic and p-value are those of the stated derivation: the weights, the weighted
  grand mean, the numerator, \<open>\<lambda>\<close>, the denominator, \<open>F\<close>, and the upper tail of the F
  distribution at \<open>(k - 1, 1 / \<lambda>)\<close>.
\<close>

theorem welch_anova_as_stated:
  assumes "analyze self lib d = Inr r"
    and "2 < length (groups d)"
    and "all_normal (normality r)"
    and "\<not> equal_variance (homogeneity r)"
  shows "tr_test_type (test r) = Welch_ANOVA
    \<and> tr_statistic (test r) = welch_F_stated (groups d)
    \<and> tr_p_value (test r) = welch_p_stated (f_cdf lib) (groups d)"
proof -
  from analyze_Inr_D(4) [OF assms(1)] assms(3,4)
  have t: "perform_statistical_test self lib (groups d) (request_labels d) True False
            = Inr (test r)"
    by simp
  from welch_branch(1-3) [OF assms(2) t] show ?thesis
    by (simp add: welch_anova_stated)
qed

theorem welch_anova_as_stated_witness:
  "\<not> isl (analyze init (library_with (1 / 2) (1 / 100) (1 / 100))
            \<lparr>groups = [[1, 2, 3], [2, 3, 4], [6, 8, 13]], labels = None, options = None\<rparr>)
   \<and> tr_statistic (test (projr (analyze init (library_with (1 / 2) (1 / 100) (1 / 100))
            \<lparr>groups = [[1, 2, 3], [2, 3, 4], [6, 8, 13]], labels = None, options = None\<rparr>)))
       = Fin (7056 / 1385)
   \<and> welch_F_stated [[1, 2, 3], [2, 3, 4], [6, 8, 13]] = Fin (7056 / 1385)
   \<and> welch_p_stated (f_cdf (library_with (1 / 2) (1 / 100) (1 / 100)))
         [[1, 2, 3], [2, 3, 4], [6, 8, 13]] = Fin (1 / 100)"
proof -
  let ?d = "\<lparr>groups = [[1, 2, 3], [2, 3, 4], [6, 8, 13]], labels = None, options = None\<rparr>"
  let ?a = "analyze init (library_with (1 / 2) (1 / 100) (1 / 100)) ?d"
  have ok: "\<not> isl ?a"
    by (simp add: stage_defs post_hoc_defs effect_defs)
  then have r: "?a = Inr (projr ?a)" by simp
  have len: "2 < length (groups ?d)" by simp
  have nrm: "all_normal (normality (projr ?a))"
    by (simp add: stage_defs post_hoc_defs effect_defs)
  have var: "\<not> equal_variance (homogeneity (projr ?a))"
    by (simp add: stage_defs post_hoc_defs effect_defs)
  have stat: "tr_statistic (test (projr ?a)) = Fin (7056 / 1385)"
    by (simp add: stage_defs post_hoc_defs effect_defs)
  have p: "tr_p_value (test (projr ?a)) = Fin (1 / 100)"
    by (simp add: stage_defs post_hoc_defs effect_defs)
  from welch_anova_as_stated [OF r len nrm var] ok stat p show ?thesis by simp
qed

text \<open>
  C10. In the Welch's ANOVA branch the reported statistic is the Welch \<open>F\<close>, while the
  omega-squared effect size is \<open>max 0 ((F - 1) / (F + (df_within + 1) / df_between))\<close> for
  the \<open>F\<close> that a fresh call of the ordinary one-way ANOVA returns on the same groups. On
  the groups \<open>[1,2,3], [2,3,4], [6,8,13]\<close> the two are \<open>7056/1385\<close> and \<open>43/5\<close>.
\<close>

theorem omega_squared_uses_ordinary_anova_F:
  assumes "analyze self lib d = Inr r"
    and "2 < length (groups d)"
    and "all_normal (normality r)"
    and "\<not> equal_variance (homogeneity r)"
  shows "tr_statistic (test r) = fst (welch_anova (f_cdf lib) (groups d))
    \<and> (\<exists>F p. f_oneway lib (groups d) = Inr (F, p)
           \<and> es_value (tr_effect_size (test r))
               = py_max (Fin 0)
                   (omega_formula F (int (length (concat (groups d))) - int (length (groups d)))
                      (int (length (groups d)) - 1)))"
proof -
  from analyze_Inr_D(4) [OF assms(1)] assms(3,4)
  have t: "perform_statistical_test self lib (groups d) (request_labels d) True False
            = Inr (test r)"
    by simp
  from welch_branch(2) [OF assms(2) t] welch_branch(4) [OF assms(2) t] show ?thesis
    by simp
qed


theorem omega_squared_uses_ordinary_anova_F_witness:
  "tr_statistic (test (projr (analyze init (library_with (1 / 2) (1 / 100) (1 / 100))
            \<lparr>groups = [[1, 2, 3], [2, 3, 4], [6, 8, 13]], labels = None, options = None\<rparr>)))
       = Fin (7056 / 1385)
   \<and> f_oneway (library_with (1 / 2) (1 / 100) (1 / 100)) [[1, 2, 3], [2, 3, 4], [6, 8, 13]]
       = Inr (Fin (43 / 5), Fin (1 / 100))
   \<and> es_value (tr_effect_size (test (projr (analyze init (library_with (1 / 2) (1 / 100) (1 / 100))
            \<lparr>groups = [[1, 2, 3], [2, 3, 4], [6, 8, 13]], labels = None, options = None\<rparr>))))
       = py_max (Fin 0) (omega_formula (Fin (43 / 5)) 6 2)
   \<and> py_max (Fin 0) (omega_formula (Fin (43 / 5)) 6 2) = Fin (76 / 121)"
proof -
  let ?d = "\<lparr>groups = [[1, 2, 3], [2, 3, 4], [6, 8, 13]], labels = None, options = None\<rparr>"
  let ?a = "analyze init (library_with (1 / 2) (1 / 100) (1 / 100)) ?d"
  have ok: "\<not> isl ?a"
    by (simp add: stage_defs post_hoc_defs effect_defs)
  then have r: "?a = Inr (projr ?a)" by simp
  have len: "2 < length (groups ?d)" by simp
  have nrm: "all_normal (normality (projr ?a))"
    by (simp add: stage_defs post_hoc_defs effect_defs)
  have var: "\<not> equal_variance (homogeneity (projr ?a))"
    by (simp add: stage_defs post_hoc_defs effect_defs)
  have stat: "fst (welch_anova (f_cdf (library_with (1 / 2) (1 / 100) (1 / 100))) (groups ?d))
                = Fin (7056 / 1385)"
    by (simp add: stage_defs effect_defs)
  have F: "f_oneway (library_with (1 / 2) (1 / 100) (1 / 100)) [[1, 2, 3], [2, 3, 4], [6, 8, 13]]
       = Inr (Fin (43 / 5), Fin (1 / 100))"
    by (simp add: stage_defs effect_defs)
  have om: "py_max (Fin 0) (omega_formula (Fin (43 / 5)) 6 2) = Fin (76 / 121)"
    by (simp add: py_max_def omega_formula_def)
  from omega_squared_uses_ordinary_anova_F [OF r len nrm var] stat F om show ?thesis by simp
qed

lemma request_labels_ignores_options:
  "request_labels (d\<lparr>options := os\<rparr>) = request_labels d"
  by (cases "labels d") (simp_all add: request_labels_def)

lemma analyze_ignores_options:
  "analyze self lib (d\<lparr>options := os\<rparr>) = analyze self lib d"
  by (simp add: analyze_def request_labels_ignores_options)

lemma normality_group_decision:
  assumes "normality_group self lib gl = Inr e"
  shows "is_normal e = (Fin (significance_level self) < ne_p_value e)"
  using assms
  by (auto simp add: normality_group_def Let_def split: if_splits sum.splits prod.splits)

lemma test_normality_decision:
  assumes "test_normality self lib gs ls = Inr nr" "e \<in> set (nr_results nr)"
  shows "is_normal e = (Fin (significance_level self) < ne_p_value e)"
proof -
  obtain es where es: "try_map (normality_group self lib) (zip gs ls) = Inr es"
    using assms(1)
    by (cases "try_map (normality_group self lib) (zip gs ls)")
       (simp_all add: test_normality_def)
  with assms have "e \<in> set es" by (auto simp add: test_normality_def)
  from try_map_Inr_result [OF es this] obtain gl where "normality_group self lib gl = Inr e"
    by blast
  then show ?thesis by (rule normality_group_decision)
qed

lemma describe_group_interval:
  assumes "describe_group self lib gl = Inr s"
  shows "ci95_lower s = ds_mean s
           - t_ppf lib (Fin ((1 + confidence_level self) / 2)) (of_pyint (int (ds_n s) - 1)) * ds_se s"
    and "ci95_upper s = ds_mean s
           + t_ppf lib (Fin ((1 + confidence_level self) / 2)) (of_pyint (int (ds_n s) - 1)) * ds_se s"
  using assms
  by (auto simp add: describe_group_def Let_def split: sum.splits)

lemma descriptive_interval:
  assumes "calculate_descriptive_stats self lib gs ls = Inr ds" "s \<in> set ds"
  shows "ci95_lower s = ds_mean s
           - t_ppf lib (Fin ((1 + confidence_level self) / 2)) (of_pyint (int (ds_n s) - 1)) * ds_se s
       \<and> ci95_upper s = ds_mean s
           + t_ppf lib (Fin ((1 + confidence_level self) / 2)) (of_pyint (int (ds_n s) - 1)) * ds_se s"
proof -
  from assms(1) have "try_map (describe_group self lib) (zip gs ls) = Inr ds"
    by (simp add: calculate_descriptive_stats_def)
  from try_map_Inr_result [OF this assms(2)]
  obtain gl where "describe_group self lib gl = Inr s" by blast
  from describe_group_interval [OF this] show ?thesis by simp
qed

lemma test_decision:
  assumes "perform_statistical_test self lib gs ls nrm eqv = Inr t"
  shows "tr_significant t = (tr_p_value t < Fin (significance_level self))"
  using assms
  by (cases "run_selected_test lib gs nrm eqv")
     (auto simp add: perform_statistical_test_def)

lemma homogeneity_decision:
  assumes "test_homogeneity self lib gs ls = Inr h" "hr_results h = Some det"
  shows "equal_variance h = (Fin (significance_level self) < vt_p_value (hd_levene det))"
proof (cases "length gs < 2")
  case True
  with assms show ?thesis by (auto simp add: test_homogeneity_def)
next
  case False
  then have "2 \<le> length gs" by simp
  from test_homogeneity_Inr_D [OF this assms(1)] assms(2) show ?thesis by auto
qed

lemma post_hoc_decision:
  assumes "perform_post_hoc self lib gs ls tt nrm eqv = Inr ph" "c \<in> set (comparisons ph)"
  shows "cmp_significant c = (adjusted_p c < Fin (significance_level self))"
proof -
  from perform_post_hoc_Inr_D(2) [OF assms]
  obtain ij m where "post_hoc_pair self lib gs ls tt eqv ij = Inr (Some (m, c))" by blast
  then show ?thesis by (rule post_hoc_pair_Some_D(2))
qed

lemma analyze_post_hoc_D:
  assumes "analyze self lib d = Inr r" "post_hoc r = Some ph"
  shows "perform_post_hoc self lib (groups d) (request_labels d) (tr_test_type (test r))
           (all_normal (normality r)) (equal_variance (homogeneity r)) = Inr ph"
  using analyze_Inr_D(5) [OF assms(1)] assms(2)
  by (cases "perform_post_hoc self lib (groups d) (request_labels d) (tr_test_type (test r))
           (all_normal (normality r)) (equal_variance (homogeneity r))")
     (auto split: if_splits)

text \<open>
  C5. The claim: every significance decision compares p-values with the request's
  \<open>options.alpha\<close> and every confidence interval uses the request's
  \<open>options.confidence\<close>, with defaults 0.05 and 0.95. The engine never reads the options
  of a request: the two levels are fixed when the engine is constructed. As amended: for
  every successful analysis by a newly constructed engine, the response is the same
  whatever options the request carries; every normality, homogeneity, omnibus and post-hoc
  decision compares its p-value with 0.05; and the confidence interval of every descriptive
  summary uses the t quantile at \<open>(1 + 0.95) / 2\<close>.
\<close>

theorem decisions_use_fixed_levels:
  assumes "analyze init lib d = Inr r"
  shows "analyze init lib (d\<lparr>options := os\<rparr>) = Inr r
    \<and> (\<forall>e \<in> set (nr_results (normality r)). is_normal e = (Fin (5 / 100) < ne_p_value e))
    \<and> (\<forall>det. hr_results (homogeneity r) = Some det \<longrightarrow>
          equal_variance (homogeneity r) = (Fin (5 / 100) < vt_p_value (hd_levene det)))
    \<and> tr_significant (test r) = (tr_p_value (test r) < Fin (5 / 100))
    \<and> (\<forall>ph. post_hoc r = Some ph \<longrightarrow>
          (\<forall>c \<in> set (comparisons ph). cmp_significant c = (adjusted_p c < Fin (5 / 100))))
    \<and> (\<forall>s \<in> set (descriptive r).
          ci95_lower s = ds_mean s - t_ppf lib (Fin (975 / 1000)) (of_pyint (int (ds_n s) - 1)) * ds_se s
          \<and> ci95_upper s = ds_mean s + t_ppf lib (Fin (975 / 1000)) (of_pyint (int (ds_n s) - 1)) * ds_se s)"
proof -
  have alpha: "significance_level init = 5 / 100" and conf: "(1 + confidence_level init) / 2 = 975 / 1000"
    by (simp_all add: init_def)
  note parts = analyze_Inr_D [OF assms]
  have 1: "analyze init lib (d\<lparr>options := os\<rparr>) = Inr r"
    using assms by (simp only: analyze_ignores_options)
  have 2: "\<forall>e \<in> set (nr_results (normality r)). is_normal e = (Fin (5 / 100) < ne_p_value e)"
    using test_normality_decision [OF parts(2)] by (simp add: alpha)
  have 3: "\<forall>det. hr_results (homogeneity r) = Some det \<longrightarrow>
          equal_variance (homogeneity r) = (Fin (5 / 100) < vt_p_value (hd_levene det))"
    using homogeneity_decision [OF parts(3)] by (simp add: alpha)
  have 4: "tr_significant (test r) = (tr_p_value (test r) < Fin (5 / 100))"
    using test_decision [OF parts(4)] by (simp add: alpha)
  have 5: "\<forall>ph. post_hoc r = Some ph \<longrightarrow>
          (\<forall>c \<in> set (comparisons ph). cmp_significant c = (adjusted_p c < Fin (5 / 100)))"
    using post_hoc_decision [OF analyze_post_hoc_D [OF assms]] by (simp add: alpha)
  have 6: "\<forall>s \<in> set (descriptive r).
          ci95_lower s = ds_mean s - t_ppf lib (Fin (975 / 1000)) (of_pyint (int (ds_n s) - 1)) * ds_se s
          \<and> ci95_upper s = ds_mean s + t_ppf lib (Fin (975 / 1000)) (of_pyint (int (ds_n s) - 1)) * ds_se s"
    using descriptive_interval [OF parts(1)] by (simp only: conf) simp
  from 1 2 3 4 5 6 show ?thesis by blast
qed

theorem decisions_use_fixed_levels_witness:
  "\<not> isl (analyze init (library_with 1 1 (1 - sqrt (6 / 7)))
        \<lparr>groups = [[1, 2, 3]], labels = None,
         options = Some \<lparr>opt_alpha = Some (1 / 2), opt_confidence = Some (1 / 2)\<rparr>\<rparr>)
   \<and> analyze init (library_with 1 1 (1 - sqrt (6 / 7)))
        \<lparr>groups = [[1, 2, 3]], labels = None, options = None\<rparr>
     = analyze init (library_with 1 1 (1 - sqrt (6 / 7)))
        \<lparr>groups = [[1, 2, 3]], labels = None,
         options = Some \<lparr>opt_alpha = Some (1 / 2), opt_confidence = Some (1 / 2)\<rparr>\<rparr>
   \<and> tr_significant (test (projr (analyze init (library_with 1 1 (1 - sqrt (6 / 7)))
        \<lparr>groups = [[1, 2, 3]], labels = None,
         options = Some \<lparr>opt_alpha = Some (1 / 2), opt_confidence = Some (1 / 2)\<rparr>\<rparr>)))
     = (tr_p_value (test (projr (analyze init (library_with 1 1 (1 - sqrt (6 / 7)))
        \<lparr>groups = [[1, 2, 3]], labels = None,
         options = Some \<lparr>opt_alpha = Some (1 / 2), opt_confidence = Some (1 / 2)\<rparr>\<rparr>)))
        < Fin (5 / 100))"
proof -
  let ?d = "\<lparr>groups = [[1, 2, 3]], labels = None,
         options = Some \<lparr>opt_alpha = Some (1 / 2), opt_confidence = Some (1 / 2)\<rparr>\<rparr>"
  let ?a = "analyze init (library_with 1 1 (1 - sqrt (6 / 7))) ?d"
  have ok: "\<not> isl ?a"
    by (simp add: stage_defs effect_defs)
  then have r: "?a = Inr (projr ?a)" by simp
  from decisions_use_fixed_levels [OF r, of None] ok r show ?thesis by simp
qed

lemma sqrt_6_7_bounds: "1 / 2 < sqrt (6 / 7)" "sqrt (6 / 7) \<le> 19 / 20"
proof -
  show "1 / 2 < sqrt (6 / 7)"
    by (rule real_less_rsqrt) (simp add: power2_eq_square)
  show "sqrt (6 / 7) \<le> 19 / 20"
    by (rule real_le_lsqrt) (simp_all add: power2_eq_square)
qed

text \<open>
  On the one group \<open>[1, 2, 3]\<close> the one-sample t-test has \<open>t = 2 sqrt 3\<close> on 2 degrees
  of freedom and the p-value \<open>1 - sqrt (6/7)\<close>, about 0.074. A request that sets
  \<open>options.alpha\<close> to 0.5 still gets \<open>significant = False\<close>.
\<close>

theorem options_alpha_is_not_read:
  "map_sum id (\<lambda>r. (tr_p_value (test r), tr_significant (test r)))
     (analyze init (library_with 1 1 (1 - sqrt (6 / 7)))
        \<lparr>groups = [[1, 2, 3]], labels = None,
         options = Some \<lparr>opt_alpha = Some (1 / 2), opt_confidence = Some (1 / 2)\<rparr>\<rparr>)
     = Inr (Fin (1 - sqrt (6 / 7)), False)
   \<and> 1 - sqrt (6 / 7) < (1 / 2 :: real)"
  using sqrt_6_7_bounds
  by (simp add: stage_defs effect_defs)

end
